theory Spec2Isabelle
  imports Complex_Main "HOL-Library.Word" "HOL-Library.Multiset" "HOL-Library.AList"
begin

unbundle bit_operations_syntax

section \<open>Vector Normalizer: \<open>fit\<close>\<close>

text \<open>
  The three embedding paths (\<open>createEmbeddings\<close> of the Ollama service,
  \<open>createEmbeddingsOVMS\<close> and \<open>createEmbeddingsMegaService\<close> of the OPEA service)
  each define the same local function:
  \<^verbatim>\<open>
  const fit = (v: number[]): number[] => {
      if (v.length === targetDim) return v;
      if (v.length > targetDim) return v.slice(0, targetDim);
      const out = new Array(targetDim).fill(0);
      for (let i = 0; i < v.length; i++) out[i] = v[i];
      return out;
  };
  \<close>
  \<open>targetDim\<close> is the result of \<open>parseInt\<close> on an environment variable, so it is an
  integer that may be negative; it is modelled as \<open>int\<close>. (\<open>NaN\<close> and the engine's
  limit on array lengths are outside the model.)
\<close>

definition js_slice0 :: "'a list \<Rightarrow> int \<Rightarrow> 'a list" where
  \<comment> \<open>\<open>v.slice(0, e)\<close>: a negative end counts from the end of the array, and the end is
      clamped to the range of the array.\<close>
  "js_slice0 v e =
     (let n = int (length v);
          k = (if e < 0 then max (n + e) 0 else min e n)
      in take (nat k) v)"

function fit_loop :: "'a list \<Rightarrow> 'a list \<Rightarrow> nat \<Rightarrow> 'a list" where
  \<comment> \<open>\<open>for (let i = 0; i < v.length; i++) out[i] = v[i]\<close>, started at \<open>i\<close>.
      The loop is only entered with \<open>length v < length out\<close>, so every write is in range.\<close>
  "fit_loop v out i = (if i < length v then fit_loop v (out[i := v ! i]) (Suc i) else out)"
  by pat_completeness auto
termination
  by (relation "measure (\<lambda>(v, out, i). length v - i)") auto

declare fit_loop.simps [simp del]

definition fit :: "int \<Rightarrow> 'a::zero list \<Rightarrow> 'a list" where
  "fit targetDim v =
     (if int (length v) = targetDim then v
      else if int (length v) > targetDim then js_slice0 v targetDim
      else fit_loop v (replicate (nat targetDim) 0) 0)"

subsection \<open>Properties of \<open>fit\<close>\<close>

lemma fit_loop_length: "length (fit_loop v out i) = length out"
proof (induction v out i rule: fit_loop.induct)
  case (1 v out i)
  show ?case
  proof (cases "i < length v")
    case True
    with "1" show ?thesis by (subst fit_loop.simps) simp
  next
    case False
    then show ?thesis by (subst fit_loop.simps) simp
  qed
qed

lemma fit_loop_nth:
  "length v \<le> length out \<Longrightarrow> j < length out \<Longrightarrow>
   fit_loop v out i ! j = (if i \<le> j \<and> j < length v then v ! j else out ! j)"
proof (induction v out i rule: fit_loop.induct)
  case (1 v out i)
  show ?case
  proof (cases "i < length v")
    case True
    have "fit_loop v out i ! j = fit_loop v (out[i := v ! i]) (Suc i) ! j"
      using True by (subst fit_loop.simps) simp
    also have "\<dots> = (if Suc i \<le> j \<and> j < length v then v ! j else (out[i := v ! i]) ! j)"
      using "1.IH" [OF True] "1.prems" by simp
    also have "\<dots> = (if i \<le> j \<and> j < length v then v ! j else out ! j)"
      using True "1.prems" by (cases "i = j") auto
    finally show ?thesis .
  next
    case False
    then show ?thesis by (subst fit_loop.simps) auto
  qed
qed

lemma fit_loop_pad:
  assumes "length v \<le> n"
  shows "fit_loop v (replicate n (0::'a::zero)) 0 = v @ replicate (n - length v) 0"
proof (rule nth_equalityI)
  show "length (fit_loop v (replicate n (0::'a)) 0) = length (v @ replicate (n - length v) 0)"
    using assms by (simp add: fit_loop_length)
next
  fix j assume "j < length (fit_loop v (replicate n (0::'a)) 0)"
  then have j: "j < n" by (simp add: fit_loop_length)
  then show "fit_loop v (replicate n (0::'a)) 0 ! j = (v @ replicate (n - length v) 0) ! j"
    using assms by (simp add: fit_loop_nth nth_append)
qed

lemma fit_nat:
  "fit (int d) v = (if length v \<ge> d then take d v else v @ replicate (d - length v) 0)"
  using fit_loop_pad [of v d]
  by (auto simp: fit_def js_slice0_def Let_def min_def)

text \<open>
  Claim C1. For every embedding vector \<open>v\<close> and target dimension \<open>d\<close>, \<open>fit\<close> returns a
  vector of length exactly \<open>d\<close>; when \<open>v\<close> has at least \<open>d\<close> elements the result is the
  first \<open>d\<close> elements of \<open>v\<close>; when \<open>v\<close> is shorter the result starts with \<open>v\<close> and every
  remaining element is zero; when the lengths agree \<open>v\<close> is returned unchanged.
\<close>

theorem fit_spec:
  "length (fit (int d) v) = d
   \<and> (length v \<ge> d \<longrightarrow> fit (int d) v = take d v)
   \<and> (length v < d \<longrightarrow> take (length v) (fit (int d) v) = v
        \<and> (\<forall>i. length v \<le> i \<and> i < d \<longrightarrow> fit (int d) v ! i = 0))
   \<and> (length v = d \<longrightarrow> fit (int d) v = v)"
  by (auto simp: fit_nat nth_append)

theorem fit_spec_witness:
  "length (fit (int 4) [1, 2 :: int]) = 4
   \<and> take 2 (fit (int 4) [1, 2 :: int]) = [1, 2]
   \<and> fit (int 4) [1, 2 :: int] ! 3 = 0
   \<and> fit (int 2) [1, 2, 3 :: int] = [1, 2]
   \<and> fit (int 3) [7, 8, 9 :: int] = [7, 8, 9]"
  using fit_spec [of 4 "[1, 2 :: int]"] fit_spec [of 2 "[1, 2, 3 :: int]"]
    fit_spec [of 3 "[7, 8, 9 :: int]"]
  by (simp add: numeral_2_eq_2)

section \<open>Retrieval Engine: how many candidates \<open>milvusSearch\<close> requests\<close>

text \<open>
  Strings of the program are modelled as HOL strings. The operators of the source that
  the models below need:
  \<^item> \<open>a || b\<close> on a string that may be \<open>undefined\<close>: \<open>a\<close> when it is defined and not empty,
    otherwise \<open>b\<close>;
  \<^item> \<open>toLowerCase()\<close>, on the letters \<open>A\<close> to \<open>Z\<close> (the only comparison made on its
    result is with the ASCII word \<open>true\<close>, which no letter outside ASCII lower-cases
    into).
\<close>

definition js_or :: "string option \<Rightarrow> string \<Rightarrow> string" where
  "js_or a b = (case a of None \<Rightarrow> b | Some x \<Rightarrow> if x = [] then b else x)"

definition to_lower_char :: "char \<Rightarrow> char" where
  "to_lower_char c =
     (let n = (of_char c :: nat) in if 65 \<le> n \<and> n \<le> 90 then char_of (n + 32) else c)"

definition toLowerCase :: "string \<Rightarrow> string" where
  "toLowerCase s = map to_lower_char s"

text \<open>
  From \<open>milvusSearch(messages, hostProvider)\<close>:
  \<^verbatim>\<open>
  const embeddingProvider = hostProvider || process.env.EMBEDDING_PROVIDER || 'ollama';
  ...
  const topK = parseInt(process.env.RETRIEVE_TOP_K || '5', 10);
  let useReranker = false;
  if(embeddingProvider === 'opea'){ useReranker = true; }
  else{ useReranker = (process.env.USE_RERANKER || 'false').toLowerCase() === 'true'; }
  const retrieveK = useReranker ? Math.min(topK * 3, 20) : topK;
  const rawResults = await this.milvusService.search(collectionName, questionVector, retrieveK);
  \<close>
  The environment variables are parameters (\<open>None\<close> when unset); \<open>topK\<close> is the integer
  that \<open>parseInt\<close> returned.
\<close>

definition embeddingProvider :: "string option \<Rightarrow> string option \<Rightarrow> string" where
  "embeddingProvider hostProvider env_EMBEDDING_PROVIDER =
     js_or hostProvider (js_or env_EMBEDDING_PROVIDER ''ollama'')"

definition useReranker :: "string \<Rightarrow> string option \<Rightarrow> bool" where
  "useReranker provider env_USE_RERANKER =
     (if provider = ''opea'' then True
      else toLowerCase (js_or env_USE_RERANKER ''false'') = ''true'')"

definition retrieveK :: "string \<Rightarrow> string option \<Rightarrow> int \<Rightarrow> int" where
  "retrieveK provider env_USE_RERANKER topK =
     (if useReranker provider env_USE_RERANKER then min (topK * 3) 20 else topK)"

text \<open>
  Claim C7. The number of candidates requested from the vector index is \<open>k\<close> when
  reranking is inactive and \<open>min (3 * k) 20\<close> when it is active; reranking is active
  whenever the embedding provider is \<open>opea\<close>, whatever the flag says, and for any other
  provider exactly when the flag \<open>USE_RERANKER\<close> reads \<open>true\<close> (in any letter case).
\<close>

theorem retrieveK_spec:
  "retrieveK provider flag k =
     (if useReranker provider flag then min (3 * k) 20 else k)
   \<and> (provider = ''opea'' \<longrightarrow> useReranker provider flag)
   \<and> (provider \<noteq> ''opea'' \<longrightarrow>
        useReranker provider flag = (\<exists>x. flag = Some x \<and> toLowerCase x = ''true''))"
proof -
  have "toLowerCase ''false'' \<noteq> ''true''"
    by (simp add: toLowerCase_def to_lower_char_def)
  moreover have "toLowerCase [] \<noteq> ''true''"
    by (simp add: toLowerCase_def)
  ultimately show ?thesis
    by (cases flag) (auto simp: retrieveK_def useReranker_def js_or_def mult.commute)
qed

theorem retrieveK_spec_witness:
  "retrieveK ''opea'' (Some ''false'') 5 = 15
   \<and> retrieveK ''opea'' None 10 = 20
   \<and> retrieveK ''ollama'' (Some ''True'') 5 = 15
   \<and> retrieveK ''ollama'' (Some ''no'') 5 = 5
   \<and> retrieveK ''ionos'' None 7 = 7"
proof -
  have t: "toLowerCase ''True'' = ''true''" "toLowerCase ''no'' \<noteq> ''true''"
    by code_simp+
  show ?thesis
    using retrieveK_spec [of "''opea''" "Some ''false''" 5]
      retrieveK_spec [of "''opea''" None 10]
      retrieveK_spec [of "''ollama''" "Some ''True''" 5]
      retrieveK_spec [of "''ollama''" "Some ''no''" 5]
      retrieveK_spec [of "''ionos''" None 7] t
    by simp
qed

section \<open>Query Orchestrator: data model\<close>

datatype ChatRole = System | User | Assistant | Tool | Function

record ChatMsg =
  role :: ChatRole
  content :: string

text \<open>
  Exceptions of the source are values. \<open>ProviderFailure\<close> stands for an exception raised
  by a call of an external service (chat completion, embedding, vector search, alert
  API, database).
\<close>

datatype error =
    BadRequest
  | InternalServerError
  | ProviderFailure
  | PostgresNotConfigured
  | TypeError
  | MaskSecretNotDefined

text \<open>
  \<open>interface ChartIntent\<close> and \<open>type AlertIntent\<close>. An optional, nullable field is an
  \<open>option\<close> (\<open>None\<close> for \<open>undefined\<close> and for \<open>null\<close>). The fields \<open>from\<close>, \<open>to\<close> and
  \<open>last\<close> of the source are \<open>from_iso\<close>, \<open>to_iso\<close> and \<open>last_window\<close> here, and the
  \<open>asset_urn\<close> of the alert intent is \<open>alert_asset_urn\<close>.
\<close>

record ChartIntent =
  wants_chart :: bool
  asset_urn :: "string option"
  metric :: "string option"
  last_window :: "(int \<times> string) option"
  from_iso :: "string option"
  to_iso :: "string option"

record AlertIntent =
  wants_alert :: bool
  alert_asset_urn :: "string option"

text \<open>\<open>interface TimeSeriesPoint { t: string; v: number }\<close> and \<open>interface ChartResult\<close>.\<close>

record TimeSeriesPoint =
  pt_t :: string
  pt_v :: real

record ChartResult =
  series :: "TimeSeriesPoint list"
  meta_assetUrn :: string
  meta_metric :: "string option"
  meta_source :: string

text \<open>\<open>type AlertResult\<close>; the type of one alert is left open.\<close>

record 'al AlertResult =
  alerts :: "'al list"
  alerta_assetUrn :: string
  alerta_source :: string

text \<open>
  What \<open>handleQuery\<close> returns: \<open>{chart, summary, first10, last10}\<close>, \<open>{message}\<close>,
  \<open>{reply, alerts}\<close> or \<open>{reply, sources}\<close>.
\<close>

datatype ('al, 'src) reply =
    ChartSummaryReply ChartResult string "TimeSeriesPoint list" "TimeSeriesPoint list"
  | MessageReply string
  | AlertsReply string "'al list"
  | AnswerReply string "'src list"

text \<open>
  Truthiness of a value that is a string, \<open>null\<close> or \<open>undefined\<close>: only a string that is
  not empty is truthy. Every array is truthy, the empty one too.
\<close>

definition truthy :: "string option \<Rightarrow> bool" where
  "truthy x = (case x of None \<Rightarrow> False | Some s \<Rightarrow> s \<noteq> [])"

definition truthy_array :: "'a list \<Rightarrow> bool" where
  "truthy_array xs = True"

definition is_space :: "char \<Rightarrow> bool" where
  \<comment> \<open>white space and line terminators of ASCII: tab, LF, VT, FF, CR and space\<close>
  "is_space c = (let n = (of_char c :: nat) in (9 \<le> n \<and> n \<le> 13) \<or> n = 32)"

definition trim :: "string \<Rightarrow> string" where
  "trim s = rev (dropWhile is_space (rev (dropWhile is_space s)))"

definition lastUserOf :: "ChatMsg list \<Rightarrow> ChatMsg option" where
  \<comment> \<open>\<open>[...messages].reverse().find(m => m.role === 'user')\<close>\<close>
  "lastUserOf messages = find (\<lambda>m. role m = User) (rev messages)"

section \<open>Live data: the chart path\<close>

text \<open>
  \<open>this.pgPool\<close> exists only when \<open>PGHOST\<close> is set; it is an optional query function, which
  stands for \<open>pgPool.query\<close> together with the mapping of its rows to points (both are
  inside the \<open>try\<close> of \<open>fetchSeriesFromPostgres\<close>). Its arguments are the entity id, the
  attribute id and the two bounds.
\<close>

type_synonym pg_query = "string \<Rightarrow> string \<Rightarrow> string \<Rightarrow> string \<Rightarrow> error + TimeSeriesPoint list"

definition fetchSeriesFromPostgres ::
  "pg_query option \<Rightarrow> string \<Rightarrow> string option \<Rightarrow> string \<Rightarrow> string \<Rightarrow> error + ChartResult" where
  "fetchSeriesFromPostgres pgPool assetUrn metric_arg from to =
     (case pgPool of
        None \<Rightarrow> Inl PostgresNotConfigured
      | Some query \<Rightarrow>
          Inr \<lparr> series =
                  (case query assetUrn
                          (''https://industry-fusion.org/base/v0.1/''
                             @ (case metric_arg of None \<Rightarrow> ''undefined'' | Some m \<Rightarrow> m))
                          from to of
                     Inl _ \<Rightarrow> []
                   | Inr rows \<Rightarrow> rows),
                meta_assetUrn = assetUrn,
                meta_metric = metric_arg,
                meta_source = ''postgres'' \<rparr>)"

definition maybeGetChartData ::
  "pg_query option \<Rightarrow> (string \<Rightarrow> error + ChartIntent) \<Rightarrow> ChatMsg list
     \<Rightarrow> error + ChartResult option" where
  "maybeGetChartData pgPool detectChartIntentWithLLM messages =
     (case lastUserOf messages of
        None \<Rightarrow> Inr None
      | Some lastUser \<Rightarrow>
          (case detectChartIntentWithLLM (content lastUser) of
             Inl e \<Rightarrow> Inl e
           | Inr nlu \<Rightarrow>
               if \<not> wants_chart nlu \<or> \<not> truthy (asset_urn nlu) then Inr None
               else
                 let from = (if truthy (from_iso nlu) then the (from_iso nlu) else []);
                     to = (if truthy (to_iso nlu) then the (to_iso nlu) else [])
                 in if pgPool \<noteq> None \<and> from \<noteq> [] \<and> to \<noteq> []
                    then (case fetchSeriesFromPostgres pgPool (the (asset_urn nlu))
                                 (metric nlu) from to of
                            Inl e \<Rightarrow> Inl e
                          | Inr chart \<Rightarrow> Inr (Some chart))
                    else Inr None))"

text \<open>
  \<open>formatChartSummary\<close>. Numbers are put into the text by the engine's conversion of a
  number to a string, the parameter \<open>numToString\<close>.
\<close>

definition formatChartSummary ::
  "(real \<Rightarrow> string) \<Rightarrow> ChartResult \<Rightarrow> string \<times> TimeSeriesPoint list \<times> TimeSeriesPoint list" where
  "formatChartSummary numToString chart =
     (let pts = length (series chart);
          first10 = take 100 (series chart);
          last10 = drop (nat (max 0 (int pts - 100))) (series chart);
          vals = map pt_v (series chart);
          summary =
            ''Live data ('' @ (case meta_metric chart of None \<Rightarrow> ''metric'' | Some m \<Rightarrow> m)
              @ '') for '' @ meta_assetUrn chart
              @ [CHR 10]
              @ ''Points: '' @ numToString (real pts)
              @ (case vals of
                   [] \<Rightarrow> []
                 | x # xs \<Rightarrow> '', Min: '' @ numToString (fold min xs x)
                              @ '', Max: '' @ numToString (fold max xs x))
      in (summary, first10, last10))"

definition getChartSummaryIfAny ::
  "(real \<Rightarrow> string) \<Rightarrow> pg_query option \<Rightarrow> (string \<Rightarrow> error + ChartIntent) \<Rightarrow> ChatMsg list
     \<Rightarrow> ('al, 'src) reply option" where
  "getChartSummaryIfAny numToString pgPool detectChartIntentWithLLM messages =
     (let chart = (case maybeGetChartData pgPool detectChartIntentWithLLM messages of
                     Inl _ \<Rightarrow> None
                   | Inr c \<Rightarrow> c)
      in case chart of
           None \<Rightarrow> None
         | Some c \<Rightarrow>
             if length (series c) > 0
             then (case formatChartSummary numToString c of
                     (summary, first10, last10) \<Rightarrow>
                       Some (ChartSummaryReply c summary first10 last10))
             else Some (MessageReply
                    ''Make sure you have mentioned asset ID, metric, from and to dates.''))"

section \<open>Live data: the alert path\<close>

text \<open>
  \<open>fetchAlertData\<close>: the parameter \<open>alertApi\<close> stands for the \<open>GET\<close> request to the alert API
  and the read of \<open>resAlerts.data.alerts\<close> (\<open>None\<close> when the field is missing); an exception
  of either is caught and leaves the empty list.
\<close>

definition fetchAlertData ::
  "(string \<Rightarrow> error + 'al list option) \<Rightarrow> string \<Rightarrow> 'al AlertResult" where
  "fetchAlertData alertApi assetUrn =
     \<lparr> alerts = (case alertApi assetUrn of
                    Inl _ \<Rightarrow> []
                  | Inr None \<Rightarrow> []
                  | Inr (Some xs) \<Rightarrow> xs),
       alerta_assetUrn = assetUrn,
       alerta_source = ''alerta'' \<rparr>"

definition maybeGetAlertData ::
  "(string \<Rightarrow> error + AlertIntent) \<Rightarrow> (string \<Rightarrow> error + 'al list option) \<Rightarrow> ChatMsg list
     \<Rightarrow> error + 'al AlertResult option" where
  "maybeGetAlertData detectAlertIntentWithLLM alertApi messages =
     (case lastUserOf messages of
        None \<Rightarrow> Inr None
      | Some lastUser \<Rightarrow>
          (case detectAlertIntentWithLLM (content lastUser) of
             Inl e \<Rightarrow> Inl e
           | Inr nlu \<Rightarrow>
               if \<not> wants_alert nlu \<or> \<not> truthy (alert_asset_urn nlu) then Inr None
               else Inr (Some (fetchAlertData alertApi (the (alert_asset_urn nlu))))))"

text \<open>
  The two replies of \<open>getAlertsDataIfAny\<close>. The apostrophe of the first is the character
  U+2019, written here as its three bytes in UTF-8.
\<close>

definition live_alerts_reply :: string where
  "live_alerts_reply =
     ''Here'' @ [CHR 0xE2, CHR 0x80, CHR 0x99] @ ''s the live alerts:'' @ [CHR 10, CHR 10]"

definition no_live_data_reply :: "string \<Rightarrow> string" where
  "no_live_data_reply assetUrn = ''No live data available for '' @ assetUrn @ ''.''"

text \<open>
  \<^verbatim>\<open>
  let alert: AlertResult | null = null;
  try { alert = await this.maybeGetAlertData(messages); } catch { }
  if (alert?.alerts) {
      const reply = `Here's the live alerts:\n\n`
      return { reply, alerts: alert?.alerts };
  }
  else if (alert?.alerts.length === 0) {
      const reply = `No live data available for ${alert.meta.assetUrn}.`;
      return { reply, alerts: alert?.alerts };
  } else { return null; }
  \<close>
\<close>

definition getAlertsDataIfAny ::
  "(string \<Rightarrow> error + AlertIntent) \<Rightarrow> (string \<Rightarrow> error + 'al list option) \<Rightarrow> ChatMsg list
     \<Rightarrow> ('al, 'src) reply option" where
  "getAlertsDataIfAny detectAlertIntentWithLLM alertApi messages =
     (let alert = (case maybeGetAlertData detectAlertIntentWithLLM alertApi messages of
                     Inl _ \<Rightarrow> None
                   | Inr a \<Rightarrow> a)
      in case alert of
           None \<Rightarrow> None
         | Some a \<Rightarrow>
             if truthy_array (alerts a) then Some (AlertsReply live_alerts_reply (alerts a))
             else if length (alerts a) = 0
             then Some (AlertsReply (no_live_data_reply (alerta_assetUrn a)) (alerts a))
             else None)"

section \<open>Query Orchestrator: \<open>handleQuery\<close>\<close>

fun join :: "string \<Rightarrow> string list \<Rightarrow> string" where
  \<comment> \<open>\<open>xs.join(sep)\<close>\<close>
  "join sep [] = []"
| "join sep [x] = x"
| "join sep (x # y # ys) = x @ sep @ join sep (y # ys)"

definition enhanceMessages :: "string list \<Rightarrow> ChatMsg list \<Rightarrow> ChatMsg list" where
  "enhanceMessages vectorStoreIds messages =
     (if length vectorStoreIds > 0
      then \<lparr> role = User,
             content = ''Find Information for product '' @ join '', '' vectorStoreIds @ ''.'' \<rparr>
           # messages
      else messages)"

text \<open>
  The system prompt. Its text is a template literal over seven lines; the dash of the
  first line is the character U+2014, written as its three bytes in UTF-8.
\<close>

definition systemPrompt :: "string list \<Rightarrow> ChatMsg" where
  \<open>systemPrompt vectorStoreIds =
     \<lparr> role = System,
       content =
         ''You are XANA '' @ [CHR 0xE2, CHR 0x80, CHR 0x94]
         @ '' an industrial machine support assistant for shop-floor operators and technicians.''
         @ [CHR 10]
         @ ''- Use provided machine files/context first; quote exact parameter names, menu paths, and setpoints from docs, and dont tell that you are provided a context.''
         @ [CHR 10]
         @ ''- If docs are empty or unrelated, say so briefly and continue with best-practice guidance.''
         @ [CHR 10]
         @ ''- Safety first: never suggest bypassing interlocks/guards; reference E-Stop and LOTO when relevant.''
         @ [CHR 10]
         @ ''- Style: short, scannable, practical; metric units; don't invent values. If uncertain, say "Not enough data" and ask one targeted question.''
         @ [CHR 10]
         @ ''- Include preventive maintenance tips, part numbers, and specs only if present in the data.''
         @ [CHR 10]
         @ ''- selected asset or product name explicitly for questions by the user is ''
         @ join '', '' vectorStoreIds
         @ '', if there two machine or product names, ask which one user means.'' \<rparr>\<close>

definition context_header :: string where
  "context_header = [CHR 10, CHR 10] @ ''--- Context ---'' @ [CHR 10]"

definition fullContextOf :: "string \<Rightarrow> string" where
  \<comment> \<open>\<open>fullContext = contextText; if (fullContext.trim()) fullContext = `\n\n--- Context ---\n${fullContext}`\<close>\<close>
  "fullContextOf contextText =
     (if trim contextText \<noteq> [] then context_header @ contextText else contextText)"

definition lastUserIdx :: "ChatMsg list \<Rightarrow> nat option" where
  \<comment> \<open>\<open>fullHistory.map((m, i) => ({ ...m, idx: i })).reverse().find(m => m.role === 'user')?.idx\<close>\<close>
  "lastUserIdx fullHistory =
     map_option snd
       (find (\<lambda>(m, idx). role m = User) (rev (zip fullHistory [0..<length fullHistory])))"

definition spliceContext :: "ChatMsg list \<Rightarrow> string \<Rightarrow> ChatMsg list" where
  "spliceContext fullHistory fullContext =
     (if trim fullContext \<noteq> []
      then (case lastUserIdx fullHistory of
              None \<Rightarrow> fullHistory
            | Some i \<Rightarrow>
                fullHistory[i := (fullHistory ! i)
                   \<lparr> content := content (fullHistory ! i) @ context_header @ fullContext \<rparr>])
      else fullHistory)"

definition buildFullHistory :: "string list \<Rightarrow> ChatMsg list \<Rightarrow> string \<Rightarrow> ChatMsg list" where
  "buildFullHistory vectorStoreIds messages contextText =
     spliceContext (systemPrompt vectorStoreIds # enhanceMessages vectorStoreIds messages)
       (fullContextOf contextText)"

text \<open>
  The collaborators and the configuration of \<open>handleQuery\<close>: the two intent detectors, the
  database pool, the alert API, \<open>milvusSearch\<close> (its context text and sources) and the chat
  completion of the routed provider together with the read of
  \<open>completion.choices[0].message.content\<close>.
\<close>

record ('al, 'src) services =
  env_CHART_INTENT :: "string option"
  env_LLM_PROVIDER :: "string option"
  numToString :: "real \<Rightarrow> string"
  pgPool :: "pg_query option"
  detectChartIntentWithLLM :: "string \<Rightarrow> error + ChartIntent"
  detectAlertIntentWithLLM :: "string \<Rightarrow> error + AlertIntent"
  alertApi :: "string \<Rightarrow> error + 'al list option"
  milvusSearch :: "ChatMsg list \<Rightarrow> string \<Rightarrow> error + string \<times> 'src list"
  chatCompletion :: "string \<Rightarrow> ChatMsg list \<Rightarrow> error + string"

definition handleQuery ::
  "('al, 'src) services \<Rightarrow> string \<Rightarrow> ChatMsg list \<Rightarrow> string list
     \<Rightarrow> error + ('al, 'src) reply" where
  "handleQuery svc hostProvider messages vectorStoreIds =
     (if messages = [] then Inl BadRequest
      else
        let enhancedMessages = enhanceMessages vectorStoreIds messages;
            chartSummary =
              (if js_or (env_CHART_INTENT svc) ''true'' \<noteq> ''false''
               then getChartSummaryIfAny (numToString svc) (pgPool svc)
                      (detectChartIntentWithLLM svc) enhancedMessages
               else None)
        in case chartSummary of
             Some r \<Rightarrow> Inr r
           | None \<Rightarrow>
               (case getAlertsDataIfAny (detectAlertIntentWithLLM svc) (alertApi svc)
                       enhancedMessages of
                  Some b \<Rightarrow> Inr b
                | None \<Rightarrow>
                    (case milvusSearch svc enhancedMessages hostProvider of
                       Inl e \<Rightarrow> Inl e
                     | Inr (contextText, sources) \<Rightarrow>
                         (case chatCompletion svc
                                 (js_or (Some hostProvider) (js_or (env_LLM_PROVIDER svc) ''ionos''))
                                 (buildFullHistory vectorStoreIds messages contextText) of
                            Inl _ \<Rightarrow> Inl InternalServerError
                          | Inr answer \<Rightarrow> Inr (AnswerReply answer (take 3 sources))))))"

text \<open>
  The context text of \<open>milvusSearch\<close> is rendered from the source label, the score and the
  text extracted from each search result:
  \<^verbatim>\<open>
  .map((hit, i) => { ... return `[${source}] (score: ${score})\n${text}`; })
  .filter(s => s && s.length > 4)
  .join('\n\n-----\n\n')
  \<close>
\<close>

definition renderBlock :: "string \<times> string \<times> string \<Rightarrow> string" where
  "renderBlock hit =
     (case hit of (source, score, text) \<Rightarrow>
        ''['' @ source @ ''] (score: '' @ score @ '')'' @ [CHR 10] @ text)"

definition renderContext :: "(string \<times> string \<times> string) list \<Rightarrow> string" where
  "renderContext hits =
     join ([CHR 10, CHR 10] @ ''-----'' @ [CHR 10, CHR 10])
       (filter (\<lambda>s. s \<noteq> [] \<and> length s > 4) (map renderBlock hits))"

subsection \<open>The alert path on an empty alert list\<close>

lemma getAlertsDataIfAny_actionable:
  assumes "lastUserOf messages = Some u"
    and "detect (content u) = Inr nlu"
    and "wants_alert nlu" and "alert_asset_urn nlu = Some urn" and "urn \<noteq> []"
  shows "getAlertsDataIfAny detect api messages
           = Some (AlertsReply live_alerts_reply (alerts (fetchAlertData api urn)))"
  using assms
  by (simp add: getAlertsDataIfAny_def maybeGetAlertData_def truthy_def truthy_array_def)

text \<open>
  Claim C2, evaluated on the code. The conversation asks for the alerts of
  \<open>urn:iff:asset:7\<close>, the alert intent is actionable and the alert API returns no alert.
  \<open>getAlertsDataIfAny\<close> answers with the reply of the first branch, the one for live
  alerts, and not with \<open>No live data available for urn:iff:asset:7.\<close>: the empty array is
  truthy, so the branch for the empty list is never reached.
\<close>

theorem getAlertsDataIfAny_zero_alerts:
  "getAlertsDataIfAny
     (\<lambda>_. Inr \<lparr> wants_alert = True, alert_asset_urn = Some ''urn:iff:asset:7'' \<rparr>)
     (\<lambda>_. Inr (Some ([] :: nat list)))
     [\<lparr> role = User, content = ''show me current alerts for urn:iff:asset:7'' \<rparr>]
   = Some (AlertsReply live_alerts_reply [] :: (nat, nat) reply)
   \<and> live_alerts_reply \<noteq> no_live_data_reply ''urn:iff:asset:7''"
  by (simp add: getAlertsDataIfAny_def maybeGetAlertData_def fetchAlertData_def
      lastUserOf_def truthy_def truthy_array_def live_alerts_reply_def no_live_data_reply_def)

subsection \<open>Gating of the chart path\<close>





subsection \<open>The context splice\<close>

lemma lastUserIdx_snoc:
  "lastUserIdx (h @ [x]) = (if role x = User then Some (length h) else lastUserIdx h)"
  by (simp add: lastUserIdx_def)

lemma lastUserIdx_Nil: "lastUserIdx [] = None"
  by (simp add: lastUserIdx_def)

lemma lastUserIdx_Some:
  "lastUserIdx h = Some i \<Longrightarrow>
     i < length h \<and> role (h ! i) = User \<and> (\<forall>j. i < j \<and> j < length h \<longrightarrow> role (h ! j) \<noteq> User)"
proof (induction h arbitrary: i rule: rev_induct)
  case Nil
  then show ?case by (simp add: lastUserIdx_Nil)
next
  case (snoc x h)
  show ?case
  proof (cases "role x = User")
    case True
    with snoc.prems have "i = length h" by (simp add: lastUserIdx_snoc)
    with True show ?thesis by auto
  next
    case False
    with snoc.prems have "lastUserIdx h = Some i" by (simp add: lastUserIdx_snoc)
    from snoc.IH [OF this] False show ?thesis
      by (auto simp: nth_append less_Suc_eq)
  qed
qed

lemma lastUserIdx_None: "lastUserIdx h = None \<longleftrightarrow> (\<forall>m \<in> set h. role m \<noteq> User)"
  by (induction h rule: rev_induct) (auto simp: lastUserIdx_Nil lastUserIdx_snoc)

lemma in_set_dropWhile: "c \<in> set s \<Longrightarrow> \<not> P c \<Longrightarrow> c \<in> set (dropWhile P s)"
  by (induction s) auto

lemma trim_nonempty:
  assumes "c \<in> set s" and "\<not> is_space c"
  shows "trim s \<noteq> []"
proof -
  have "c \<in> set (dropWhile is_space s)"
    using assms by (rule in_set_dropWhile)
  then have "c \<in> set (rev (dropWhile is_space s))" by simp
  then have c: "c \<in> set (dropWhile is_space (rev (dropWhile is_space s)))"
    using assms(2) by (rule in_set_dropWhile)
  show ?thesis
  proof
    assume "trim s = []"
    then have "dropWhile is_space (rev (dropWhile is_space s)) = []"
      unfolding trim_def by (simp only: rev_is_Nil_conv)
    with c show False by (simp only: list.set empty_iff)
  qed
qed

lemma join_hd: "xs \<noteq> [] \<Longrightarrow> hd xs \<noteq> [] \<Longrightarrow> join sep xs \<noteq> [] \<and> hd (join sep xs) = hd (hd xs)"
  by (induction sep xs rule: join.induct) auto

lemma renderBlock_form: "renderBlock hit \<noteq> [] \<and> hd (renderBlock hit) = CHR ''['' \<and> length (renderBlock hit) > 4"
  by (cases hit) (simp add: renderBlock_def)

lemma renderContext_trim: 
  assumes ne: "renderContext hits \<noteq> []"
  shows "trim (renderContext hits) \<noteq> []"
proof -
  let ?sep = "[CHR 10, CHR 10] @ ''-----'' @ [CHR 10, CHR 10]"
  have rc: "renderContext hits = join ?sep (map renderBlock hits)"
    by (simp add: renderContext_def renderBlock_form)
  have "hits \<noteq> []" using ne by (auto simp: renderContext_def)
  then have a: "map renderBlock hits \<noteq> []" and b: "hd (map renderBlock hits) \<noteq> []"
    and c: "hd (hd (map renderBlock hits)) = CHR ''[''"
    by (simp_all add: renderBlock_form hd_map)
  have "hd (renderContext hits) = CHR ''[''"
    using join_hd [OF a b, of ?sep] c by (simp only: rc)
  then have "CHR ''['' \<in> set (renderContext hits)"
    using ne hd_in_set [of "renderContext hits"] by simp
  moreover have "\<not> is_space CHR ''[''" by (simp add: is_space_def)
  ultimately show ?thesis by (rule trim_nonempty)
qed


lemma fullContextOf_trim: "trim ctx \<noteq> [] \<Longrightarrow> trim (fullContextOf ctx) \<noteq> []"
proof -
  assume a: "trim ctx \<noteq> []"
  then obtain c where c: "c \<in> set ctx" "\<not> is_space c"
    by (auto simp: trim_def dropWhile_eq_Nil_conv dest: set_dropWhileD)
  have "c \<in> set (fullContextOf ctx)"
    using a c by (simp add: fullContextOf_def)
  then show ?thesis using c(2) by (rule trim_nonempty)
qed

lemma spliceContext_spec:
  assumes t: "trim fullContext \<noteq> []" and i: "lastUserIdx h = Some i"
  shows "length (spliceContext h fullContext) = length h
     \<and> spliceContext h fullContext ! i
          = (h ! i) \<lparr> content := content (h ! i) @ context_header @ fullContext \<rparr>
     \<and> (\<forall>j. j < length h \<and> j \<noteq> i \<longrightarrow> spliceContext h fullContext ! j = h ! j)"
  using t i lastUserIdx_Some [OF i] by (simp add: spliceContext_def)


lemma buildFullHistory_Some:
  assumes "renderContext hits \<noteq> []"
    and "lastUserIdx (systemPrompt ids # enhanceMessages ids messages) = Some i"
  shows "buildFullHistory ids messages (renderContext hits)
           = (systemPrompt ids # enhanceMessages ids messages)
               [i := ((systemPrompt ids # enhanceMessages ids messages) ! i)
                  \<lparr> content := content ((systemPrompt ids # enhanceMessages ids messages) ! i)
                                 @ context_header @ context_header @ renderContext hits \<rparr>]"
proof -
  have t: "trim (renderContext hits) \<noteq> []"
    using assms(1) by (rule renderContext_trim)
  then have f: "fullContextOf (renderContext hits) = context_header @ renderContext hits"
    by (simp add: fullContextOf_def)
  have t': "trim (fullContextOf (renderContext hits)) \<noteq> []"
    using t by (rule fullContextOf_trim)
  show ?thesis
    using t' assms(2) unfolding buildFullHistory_def spliceContext_def f by simp
qed

lemma buildFullHistory_None:
  assumes "lastUserIdx (systemPrompt ids # enhanceMessages ids messages) = None"
  shows "buildFullHistory ids messages contextText
           = systemPrompt ids # enhanceMessages ids messages"
  using assms by (simp add: buildFullHistory_def spliceContext_def)

lemma handleQuery_generate:
  assumes "messages \<noteq> []"
    and "(if js_or (env_CHART_INTENT svc) ''true'' \<noteq> ''false''
          then getChartSummaryIfAny (numToString svc) (pgPool svc)
                 (detectChartIntentWithLLM svc) (enhanceMessages ids messages)
          else None) = (None :: ('al, 'src) reply option)"
    and "getAlertsDataIfAny (detectAlertIntentWithLLM svc) (alertApi svc)
           (enhanceMessages ids messages) = (None :: ('al, 'src) reply option)"
    and "milvusSearch svc (enhanceMessages ids messages) host = Inr (contextText, sources)"
  shows "handleQuery (svc :: ('al, 'src) services) host messages ids
           = (case chatCompletion svc
                     (js_or (Some host) (js_or (env_LLM_PROVIDER svc) ''ionos''))
                     (buildFullHistory ids messages contextText) of
                Inl _ \<Rightarrow> Inl InternalServerError
              | Inr answer \<Rightarrow> Inr (AnswerReply answer (take 3 sources)))"
  using assms by (simp add: handleQuery_def Let_def)

text \<open>
  Claim C6 as stated does not hold for every conversation that reaches the chat
  completion with a non-empty context. The conversation here has one message, of role
  \<open>assistant\<close>, and no vector store is named, so the assembled history has no message of
  role \<open>user\<close>: \<open>lastUserIdx\<close> is \<open>undefined\<close>, the guard \<open>if (lastUserIdx !== undefined)\<close> skips
  the splice, and the history is the system prompt and the conversation, without the
  context.
\<close>

theorem context_splice_no_user_counterexample:
  "renderContext [(''manual.pdf'', ''0.9'', ''Set the pressure to 5 bar.'')] \<noteq> []
   \<and> buildFullHistory [] [\<lparr> role = Assistant, content = ''Which pump?'' \<rparr>]
        (renderContext [(''manual.pdf'', ''0.9'', ''Set the pressure to 5 bar.'')])
     = [systemPrompt [], \<lparr> role = Assistant, content = ''Which pump?'' \<rparr>]"
proof -
  have "role (systemPrompt []) = System"
    by (simp add: systemPrompt_def)
  then have "lastUserIdx (systemPrompt [] # enhanceMessages []
                 [\<lparr> role = Assistant, content = ''Which pump?'' \<rparr>]) = None"
    by (simp add: lastUserIdx_None enhanceMessages_def)
  then have "buildFullHistory [] [\<lparr> role = Assistant, content = ''Which pump?'' \<rparr>]
        (renderContext [(''manual.pdf'', ''0.9'', ''Set the pressure to 5 bar.'')])
     = systemPrompt [] # enhanceMessages [] [\<lparr> role = Assistant, content = ''Which pump?'' \<rparr>]"
    by (rule buildFullHistory_None)
  moreover have "renderContext [(''manual.pdf'', ''0.9'', ''Set the pressure to 5 bar.'')] \<noteq> []"
    by (simp add: renderContext_def renderBlock_def)
  ultimately show ?thesis
    by (simp add: enhanceMessages_def)
qed

text \<open>
  Claim C6, amended. Let \<open>handleQuery\<close> reach the chat completion: the conversation is not
  empty, neither the chart check nor the alert check answers, and \<open>milvusSearch\<close>
  returns a rendered context that is not empty. When the assembled history \<open>H\<close> (system
  prompt, then the enhanced conversation) has a message of role \<open>user\<close>, the history given
  to the chat completion is \<open>H\<close> with one change: the content of its last message of role
  \<open>user\<close> is the original content followed by the context, which the source introduces
  by the line \<open>--- Context ---\<close> (written twice, once by each of the two template
  literals). No message is added: the length is the same and every other message is
  unchanged. When \<open>H\<close> has no message of role \<open>user\<close>, the chat completion is given \<open>H\<close>
  itself.
\<close>

theorem handleQuery_context_splice:
  assumes "messages \<noteq> []"
    and "(if js_or (env_CHART_INTENT svc) ''true'' \<noteq> ''false''
          then getChartSummaryIfAny (numToString svc) (pgPool svc)
                 (detectChartIntentWithLLM svc) (enhanceMessages ids messages)
          else None) = (None :: ('al, 'src) reply option)"
    and "getAlertsDataIfAny (detectAlertIntentWithLLM svc) (alertApi svc)
           (enhanceMessages ids messages) = (None :: ('al, 'src) reply option)"
    and "milvusSearch svc (enhanceMessages ids messages) host
           = Inr (renderContext hits, sources)"
    and "renderContext hits \<noteq> []"
    and "H = systemPrompt ids # enhanceMessages ids messages"
  shows "(\<forall>i. lastUserIdx H = Some i \<longrightarrow>
            handleQuery (svc :: ('al, 'src) services) host messages ids
              = (case chatCompletion svc
                        (js_or (Some host) (js_or (env_LLM_PROVIDER svc) ''ionos''))
                        (H [i := (H ! i) \<lparr> content := content (H ! i) @ context_header
                                                 @ context_header @ renderContext hits \<rparr>]) of
                   Inl _ \<Rightarrow> Inl InternalServerError
                 | Inr answer \<Rightarrow> Inr (AnswerReply answer (take 3 sources)))
          \<and> i < length H \<and> role (H ! i) = User
          \<and> (\<forall>j. i < j \<and> j < length H \<longrightarrow> role (H ! j) \<noteq> User)
          \<and> length (H [i := (H ! i) \<lparr> content := content (H ! i) @ context_header
                                        @ context_header @ renderContext hits \<rparr>]) = length H
          \<and> (\<forall>j. j < length H \<and> j \<noteq> i \<longrightarrow>
                 H [i := (H ! i) \<lparr> content := content (H ! i) @ context_header
                                      @ context_header @ renderContext hits \<rparr>] ! j = H ! j))
     \<and> (lastUserIdx H = None \<longrightarrow>
            (\<forall>m \<in> set H. role m \<noteq> User)
          \<and> handleQuery svc host messages ids
              = (case chatCompletion svc
                        (js_or (Some host) (js_or (env_LLM_PROVIDER svc) ''ionos'')) H of
                   Inl _ \<Rightarrow> Inl InternalServerError
                 | Inr answer \<Rightarrow> Inr (AnswerReply answer (take 3 sources))))"
proof (intro conjI allI impI)
  note g = handleQuery_generate [OF assms(1) assms(2) assms(3) assms(4)]
  {
    fix i assume i: "lastUserIdx H = Some i"
    then have i': "lastUserIdx (systemPrompt ids # enhanceMessages ids messages) = Some i"
      by (simp add: assms(6))
    show "handleQuery svc host messages ids
              = (case chatCompletion svc
                        (js_or (Some host) (js_or (env_LLM_PROVIDER svc) ''ionos''))
                        (H [i := (H ! i) \<lparr> content := content (H ! i) @ context_header
                                                 @ context_header @ renderContext hits \<rparr>]) of
                   Inl _ \<Rightarrow> Inl InternalServerError
                 | Inr answer \<Rightarrow> Inr (AnswerReply answer (take 3 sources)))"
      unfolding g buildFullHistory_Some [OF assms(5) i'] assms(6) ..
    show "i < length H" "role (H ! i) = User"
      using lastUserIdx_Some [OF i] by simp_all
    show "length (H [i := (H ! i) \<lparr> content := content (H ! i) @ context_header
                                        @ context_header @ renderContext hits \<rparr>]) = length H"
      by simp
    {
      fix j assume "i < j \<and> j < length H"
      then show "role (H ! j) \<noteq> User"
        using lastUserIdx_Some [OF i] by blast
    }
    {
      fix j assume "j < length H \<and> j \<noteq> i"
      then show "H [i := (H ! i) \<lparr> content := content (H ! i) @ context_header
                                      @ context_header @ renderContext hits \<rparr>] ! j = H ! j"
        by simp
    }
  }
  {
    assume n: "lastUserIdx H = None"
    then show "\<forall>m \<in> set H. role m \<noteq> User"
      by (simp add: lastUserIdx_None)
    from n have "lastUserIdx (systemPrompt ids # enhanceMessages ids messages) = None"
      by (simp add: assms(6))
    from buildFullHistory_None [OF this]
    show "handleQuery svc host messages ids
              = (case chatCompletion svc
                        (js_or (Some host) (js_or (env_LLM_PROVIDER svc) ''ionos'')) H of
                   Inl _ \<Rightarrow> Inl InternalServerError
                 | Inr answer \<Rightarrow> Inr (AnswerReply answer (take 3 sources)))"
      unfolding g assms(6) by simp
  }
qed


theorem handleQuery_context_splice_witness:
  "handleQuery
     \<lparr> env_CHART_INTENT = None, env_LLM_PROVIDER = None, numToString = (\<lambda>_. ''0''),
       pgPool = None,
       detectChartIntentWithLLM =
         (\<lambda>_. Inr \<lparr> wants_chart = False, asset_urn = None, metric = None,
                      last_window = None, from_iso = None, to_iso = None \<rparr>),
       detectAlertIntentWithLLM = (\<lambda>_. Inr \<lparr> wants_alert = False, alert_asset_urn = None \<rparr>),
       alertApi = (\<lambda>_. Inr None),
       milvusSearch =
         (\<lambda>_ _. Inr (renderContext [(''manual.pdf'', ''0.9'', ''Set the pressure to 5 bar.'')],
                       [1, 2, 3, 4 :: nat])),
       chatCompletion = (\<lambda>_ h. Inr (content (last h))) \<rparr>
     ''ollama'' [\<lparr> role = User, content = ''How do I set the pressure?'' \<rparr>] [''pump'']
   = Inr (AnswerReply
            (''How do I set the pressure?'' @ context_header @ context_header
               @ ''[manual.pdf] (score: 0.9)'' @ [CHR 10] @ ''Set the pressure to 5 bar.'')
            [1, 2, 3] :: (nat, nat) reply)
   \<and> handleQuery
     \<lparr> env_CHART_INTENT = None, env_LLM_PROVIDER = None, numToString = (\<lambda>_. ''0''),
       pgPool = None,
       detectChartIntentWithLLM =
         (\<lambda>_. Inr \<lparr> wants_chart = False, asset_urn = None, metric = None,
                      last_window = None, from_iso = None, to_iso = None \<rparr>),
       detectAlertIntentWithLLM = (\<lambda>_. Inr \<lparr> wants_alert = False, alert_asset_urn = None \<rparr>),
       alertApi = (\<lambda>_. Inr None),
       milvusSearch =
         (\<lambda>_ _. Inr (renderContext [(''manual.pdf'', ''0.9'', ''Set the pressure to 5 bar.'')],
                       [1, 2, 3, 4 :: nat])),
       chatCompletion = (\<lambda>_ h. Inr (content (last h))) \<rparr>
     ''ollama'' [\<lparr> role = Assistant, content = ''Which pump?'' \<rparr>] []
   = Inr (AnswerReply ''Which pump?'' [1, 2, 3] :: (nat, nat) reply)"
proof -
  let ?msgs = "[\<lparr> role = User, content = ''How do I set the pressure?'' \<rparr>]"
  let ?hits = "[(''manual.pdf'', ''0.9'', ''Set the pressure to 5 bar.'')]"
  let ?svc = "\<lparr> env_CHART_INTENT = None, env_LLM_PROVIDER = None, numToString = (\<lambda>_. ''0''),
       pgPool = None,
       detectChartIntentWithLLM =
         (\<lambda>_. Inr \<lparr> wants_chart = False, asset_urn = None, metric = None,
                      last_window = None, from_iso = None, to_iso = None \<rparr>),
       detectAlertIntentWithLLM = (\<lambda>_. Inr \<lparr> wants_alert = False, alert_asset_urn = None \<rparr>),
       alertApi = (\<lambda>_. Inr None),
       milvusSearch = (\<lambda>_ _. Inr (renderContext ?hits, [1, 2, 3, 4 :: nat])),
       chatCompletion = (\<lambda>_ h. Inr (content (last h))) \<rparr> :: (nat, nat) services"
  let ?H = "[systemPrompt [''pump''],
      \<lparr> role = User, content = ''Find Information for product pump.'' \<rparr>,
      \<lparr> role = User, content = ''How do I set the pressure?'' \<rparr>]"
  have enh: "enhanceMessages [''pump''] ?msgs
               = [\<lparr> role = User, content = ''Find Information for product pump.'' \<rparr>,
                  \<lparr> role = User, content = ''How do I set the pressure?'' \<rparr>]"
    by (simp add: enhanceMessages_def)
  have last: "lastUserOf (enhanceMessages [''pump''] ?msgs)
                = Some \<lparr> role = User, content = ''How do I set the pressure?'' \<rparr>"
    unfolding enh by (simp add: lastUserOf_def)
  have a1: "?msgs \<noteq> []" by simp
  have a2: "(if js_or (env_CHART_INTENT ?svc) ''true'' \<noteq> ''false''
          then getChartSummaryIfAny (numToString ?svc) (pgPool ?svc)
                 (detectChartIntentWithLLM ?svc) (enhanceMessages [''pump''] ?msgs)
          else None) = (None :: (nat, nat) reply option)"
    by (simp add: getChartSummaryIfAny_def maybeGetChartData_def last)
  have a3: "getAlertsDataIfAny (detectAlertIntentWithLLM ?svc) (alertApi ?svc)
           (enhanceMessages [''pump''] ?msgs) = (None :: (nat, nat) reply option)"
    by (simp add: getAlertsDataIfAny_def maybeGetAlertData_def last)
  have a4: "milvusSearch ?svc (enhanceMessages [''pump''] ?msgs) ''ollama''
           = Inr (renderContext ?hits, [1, 2, 3, 4])"
    by simp
  have r: "renderContext ?hits
             = ''[manual.pdf] (score: 0.9)'' @ [CHR 10] @ ''Set the pressure to 5 bar.''"
    by (simp add: renderContext_def renderBlock_def)
  have a5: "renderContext ?hits \<noteq> []"
    by (simp add: r)
  have a6: "?H = systemPrompt [''pump''] # enhanceMessages [''pump''] ?msgs"
    by (simp add: enh)
  have sys: "role (systemPrompt [''pump'']) = System"
    by (simp add: systemPrompt_def)
  have idx: "lastUserIdx ?H = Some 2"
    by (simp add: lastUserIdx_def sys upt_rec)
  have "handleQuery ?svc ''ollama'' ?msgs [''pump'']
          = (case chatCompletion ?svc
                    (js_or (Some ''ollama'') (js_or (env_LLM_PROVIDER ?svc) ''ionos''))
                    (?H [2 := (?H ! 2) \<lparr> content := content (?H ! 2) @ context_header
                                             @ context_header @ renderContext ?hits \<rparr>]) of
               Inl _ \<Rightarrow> Inl InternalServerError
             | Inr answer \<Rightarrow> Inr (AnswerReply answer (take 3 [1, 2, 3, 4])))"
    using handleQuery_context_splice [OF a1 a2 a3 a4 a5 a6] idx by blast
  then have first: "handleQuery ?svc ''ollama'' ?msgs [''pump'']
     = Inr (AnswerReply
            (''How do I set the pressure?'' @ context_header @ context_header
               @ ''[manual.pdf] (score: 0.9)'' @ [CHR 10] @ ''Set the pressure to 5 bar.'')
            [1, 2, 3])"
    by (simp add: r)
  let ?msgs' = "[\<lparr> role = Assistant, content = ''Which pump?'' \<rparr>]"
  let ?H' = "[systemPrompt [], \<lparr> role = Assistant, content = ''Which pump?'' \<rparr>]"
  have enh': "enhanceMessages [] ?msgs' = ?msgs'"
    by (simp add: enhanceMessages_def)
  have last': "lastUserOf (enhanceMessages [] ?msgs') = None"
    unfolding enh' by (simp add: lastUserOf_def)
  have b1: "?msgs' \<noteq> []" by simp
  have b2: "(if js_or (env_CHART_INTENT ?svc) ''true'' \<noteq> ''false''
          then getChartSummaryIfAny (numToString ?svc) (pgPool ?svc)
                 (detectChartIntentWithLLM ?svc) (enhanceMessages [] ?msgs')
          else None) = (None :: (nat, nat) reply option)"
    by (simp add: getChartSummaryIfAny_def maybeGetChartData_def last')
  have b3: "getAlertsDataIfAny (detectAlertIntentWithLLM ?svc) (alertApi ?svc)
           (enhanceMessages [] ?msgs') = (None :: (nat, nat) reply option)"
    by (simp add: getAlertsDataIfAny_def maybeGetAlertData_def last')
  have b4: "milvusSearch ?svc (enhanceMessages [] ?msgs') ''ollama''
           = Inr (renderContext ?hits, [1, 2, 3, 4])"
    by simp
  have b6: "?H' = systemPrompt [] # enhanceMessages [] ?msgs'"
    by (simp add: enh')
  have sys': "role (systemPrompt []) = System"
    by (simp add: systemPrompt_def)
  have idx': "lastUserIdx ?H' = None"
    by (simp add: lastUserIdx_None sys')
  have "handleQuery ?svc ''ollama'' ?msgs' []
          = (case chatCompletion ?svc
                    (js_or (Some ''ollama'') (js_or (env_LLM_PROVIDER ?svc) ''ionos'')) ?H' of
               Inl _ \<Rightarrow> Inl InternalServerError
             | Inr answer \<Rightarrow> Inr (AnswerReply answer (take 3 [1, 2, 3, 4])))"
    using handleQuery_context_splice [OF b1 b2 b3 b4 a5 b6] idx' by blast
  then have second: "handleQuery ?svc ''ollama'' ?msgs' []
     = Inr (AnswerReply ''Which pump?'' [1, 2, 3])"
    by simp
  show ?thesis
    using first second by (intro conjI)
qed

section \<open>Provider Gateway: the body of a chat completion request\<close>

text \<open>
  Values of type \<open>any\<close> (the fields of \<open>extra\<close>, the data of a provider's response) are
  JSON-like values. An object is the list of its properties in insertion order, with
  distinct keys.
\<close>

datatype jsval =
    JUndefined
  | JNull
  | JBool bool
  | JNum real
  | JStr string
  | JArr "jsval list"
  | JObj "(string \<times> jsval) list"

fun js_truthy :: "jsval \<Rightarrow> bool" where
  "js_truthy JUndefined = False"
| "js_truthy JNull = False"
| "js_truthy (JBool b) = b"
| "js_truthy (JNum n) = (n \<noteq> 0)"
| "js_truthy (JStr s) = (s \<noteq> [])"
| "js_truthy (JArr xs) = True"
| "js_truthy (JObj kvs) = True"

fun role_name :: "ChatRole \<Rightarrow> string" where
  "role_name System = ''system''"
| "role_name User = ''user''"
| "role_name Assistant = ''assistant''"
| "role_name Tool = ''tool''"
| "role_name Function = ''function''"

definition message_js :: "ChatMsg \<Rightarrow> jsval" where
  "message_js m = JObj [(''role'', JStr (role_name (role m))), (''content'', JStr (content m))]"

definition messages_js :: "ChatMsg list \<Rightarrow> jsval" where
  "messages_js ms = JArr (map message_js ms)"

definition spread :: "(string \<times> jsval) list \<Rightarrow> (string \<times> jsval) list \<Rightarrow> (string \<times> jsval) list" where
  \<comment> \<open>\<open>{ ...base, ...extra }\<close>: each property of \<open>extra\<close> is assigned in turn; an existing key
      keeps its place and takes the new value, a new key goes to the end.\<close>
  "spread base extra = fold (\<lambda>(k, v) obj. AList.update k v obj) extra base"

definition field :: "(string \<times> jsval) list \<Rightarrow> string \<Rightarrow> jsval option" where
  "field obj k = map_of obj k"

text \<open>
  \<open>chatCompletionOVMS\<close> and \<open>chatCompletionMegaService\<close> of the OPEA service, and
  \<open>chatCompletion\<close> of the Ollama service. In each the object literal ends with
  \<open>...(params.extra ?? {})\<close>. The configured model names and \<open>keep_alive\<close> are parameters.
  \<^verbatim>\<open>
  const body = {
      model: params.extra?.model || this.llmModelName,
      messages: params.messages,
      temperature: params.temperature ?? 0.3,
      max_tokens: params.maxTokens ?? 1024,
      stream: false,
      ...(params.extra ?? {}),
  };
  \<close>
\<close>

definition extra_or_empty :: "(string \<times> jsval) list option \<Rightarrow> (string \<times> jsval) list" where
  "extra_or_empty extra = (case extra of None \<Rightarrow> [] | Some e \<Rightarrow> e)"

definition chatCompletionOVMS_body ::
  "string \<Rightarrow> ChatMsg list \<Rightarrow> real option \<Rightarrow> real option \<Rightarrow> (string \<times> jsval) list option
     \<Rightarrow> (string \<times> jsval) list" where
  "chatCompletionOVMS_body llmModelName msgs temperature maxTokens extra =
     spread
       [(''model'', (case field (extra_or_empty extra) ''model'' of
                       Some m \<Rightarrow> if js_truthy m then m else JStr llmModelName
                     | None \<Rightarrow> JStr llmModelName)),
        (''messages'', messages_js msgs),
        (''temperature'', JNum (case temperature of None \<Rightarrow> 0.3 | Some t \<Rightarrow> t)),
        (''max_tokens'', JNum (case maxTokens of None \<Rightarrow> 1024 | Some n \<Rightarrow> n)),
        (''stream'', JBool False)]
       (extra_or_empty extra)"

definition chatCompletionMegaService_body ::
  "string \<Rightarrow> ChatMsg list \<Rightarrow> real option \<Rightarrow> real option \<Rightarrow> (string \<times> jsval) list option
     \<Rightarrow> (string \<times> jsval) list" where
  "chatCompletionMegaService_body model msgs temperature maxTokens extra =
     spread
       [(''model'', JStr model),
        (''messages'', messages_js msgs),
        (''temperature'', JNum (case temperature of None \<Rightarrow> 0.3 | Some t \<Rightarrow> t)),
        (''max_tokens'', JNum (case maxTokens of None \<Rightarrow> 1024 | Some n \<Rightarrow> n)),
        (''stream'', JBool False)]
       (extra_or_empty extra)"

definition ollama_chatCompletion_body ::
  "string \<Rightarrow> string \<Rightarrow> ChatMsg list \<Rightarrow> real option \<Rightarrow> real option
     \<Rightarrow> (string \<times> jsval) list option \<Rightarrow> (string \<times> jsval) list" where
  "ollama_chatCompletion_body model keep_alive msgs temperature maxTokens extra =
     spread
       [(''model'', JStr model),
        (''messages'', messages_js msgs),
        (''temperature'', JNum (case temperature of None \<Rightarrow> 0.3 | Some t \<Rightarrow> t)),
        (''max_tokens'', JNum (case maxTokens of None \<Rightarrow> 1024 | Some n \<Rightarrow> n)),
        (''keep_alive'', JStr keep_alive)]
       (extra_or_empty extra)"

text \<open>
  The request itself: the body is posted, and a failure of the transport is wrapped in
  a new error. \<open>post\<close> stands for \<open>this.http.post\<close> followed by the read of \<open>resp.data\<close>.
\<close>

definition opea_chatCompletion ::
  "bool \<Rightarrow> string \<Rightarrow> string \<Rightarrow> ((string \<times> jsval) list \<Rightarrow> error + jsval)
     \<Rightarrow> ChatMsg list \<Rightarrow> real option \<Rightarrow> real option \<Rightarrow> (string \<times> jsval) list option
     \<Rightarrow> error + jsval" where
  "opea_chatCompletion ovms llmModelName megaModel post msgs temperature maxTokens extra =
     (case post (if ovms
                 then chatCompletionOVMS_body llmModelName msgs temperature maxTokens extra
                 else chatCompletionMegaService_body megaModel msgs temperature maxTokens extra) of
        Inl _ \<Rightarrow> Inl ProviderFailure
      | Inr data \<Rightarrow> Inr data)"

definition ollama_chatCompletion ::
  "string \<Rightarrow> string \<Rightarrow> ((string \<times> jsval) list \<Rightarrow> error + jsval)
     \<Rightarrow> ChatMsg list \<Rightarrow> real option \<Rightarrow> real option \<Rightarrow> (string \<times> jsval) list option
     \<Rightarrow> error + jsval" where
  "ollama_chatCompletion model keep_alive post msgs temperature maxTokens extra =
     (case post (ollama_chatCompletion_body model keep_alive msgs temperature maxTokens extra) of
        Inl _ \<Rightarrow> Inl ProviderFailure
      | Inr data \<Rightarrow> Inr data)"

subsection \<open>Which fields \<open>extra\<close> overrides\<close>

lemma field_fold_update:
  "map_of (fold (\<lambda>(k, v) obj. AList.update k v obj) extra base) k
     = (case map_of (rev extra) k of Some v \<Rightarrow> Some v | None \<Rightarrow> map_of base k)"
proof (induction extra arbitrary: base)
  case Nil
  show ?case by simp
next
  case (Cons kv extra)
  obtain k' v' where kv: "kv = (k', v')" by (cases kv)
  show ?case
    by (simp add: kv Cons.IH update_conv' map_add_def split: option.splits)
qed

lemma field_spread:
  "field (spread base extra) k
     = (case map_of (rev extra) k of Some v \<Rightarrow> Some v | None \<Rightarrow> field base k)"
  unfolding field_def spread_def by (rule field_fold_update)

lemma body_messages_default:
  "field [(''model'', m), (''messages'', messages_js msgs), (''temperature'', t),
          (''max_tokens'', n), (k5, v5)] ''messages'' = Some (messages_js msgs)"
  by (simp add: field_def)

text \<open>
  Claim C3 as stated does not hold: a \<open>messages\<close> key in \<open>extra\<close> replaces the caller's
  messages in the body. Here \<open>extra\<close> is \<open>{ messages: [] }\<close>.
\<close>

theorem chatCompletion_messages_counterexample:
  "field (chatCompletionOVMS_body ''llm'' [\<lparr> role = User, content = ''hi'' \<rparr>] None None
            (Some [(''messages'', JArr [])])) ''messages''
     \<noteq> Some (messages_js [\<lparr> role = User, content = ''hi'' \<rparr>])
   \<and> field (chatCompletionMegaService_body ''llm'' [\<lparr> role = User, content = ''hi'' \<rparr>] None None
            (Some [(''messages'', JArr [])])) ''messages''
     \<noteq> Some (messages_js [\<lparr> role = User, content = ''hi'' \<rparr>])
   \<and> field (ollama_chatCompletion_body ''llm'' ''30m'' [\<lparr> role = User, content = ''hi'' \<rparr>] None None
            (Some [(''messages'', JArr [])])) ''messages''
     \<noteq> Some (messages_js [\<lparr> role = User, content = ''hi'' \<rparr>])"
  by (simp add: field_spread chatCompletionOVMS_body_def chatCompletionMegaService_body_def
      ollama_chatCompletion_body_def extra_or_empty_def messages_js_def)

text \<open>
  Claim C3, amended. In the body of each of the three chat completion requests, every
  field of \<open>extra\<close> overrides the field of the same name, \<open>messages\<close> included; the
  \<open>messages\<close> field of the body is the caller's messages exactly when \<open>extra\<close> has no
  \<open>messages\<close> key (or has one with that same value).
\<close>

theorem chatCompletion_body_extra:
  "body \<in> {chatCompletionOVMS_body model msgs temperature maxTokens extra,
            chatCompletionMegaService_body model msgs temperature maxTokens extra,
            ollama_chatCompletion_body model keep_alive msgs temperature maxTokens extra}
   \<Longrightarrow> distinct (map fst (extra_or_empty extra))
   \<Longrightarrow> (\<forall>k v. (k, v) \<in> set (extra_or_empty extra) \<longrightarrow> field body k = Some v)
       \<and> (''messages'' \<notin> fst ` set (extra_or_empty extra)
            \<longrightarrow> field body ''messages'' = Some (messages_js msgs))"
proof -
  assume b: "body \<in> {chatCompletionOVMS_body model msgs temperature maxTokens extra,
            chatCompletionMegaService_body model msgs temperature maxTokens extra,
            ollama_chatCompletion_body model keep_alive msgs temperature maxTokens extra}"
    and d: "distinct (map fst (extra_or_empty extra))"
  let ?e = "extra_or_empty extra"
  have d': "distinct (map fst (rev ?e))"
    using d by (simp add: rev_map [symmetric])
  have over: "map_of (rev ?e) k = Some v" if "(k, v) \<in> set ?e" for k v
    using that d' by (intro map_of_is_SomeI) simp_all
  have none: "map_of (rev ?e) ''messages'' = None" if "''messages'' \<notin> fst ` set ?e"
    using that by (simp add: map_of_eq_None_iff)
  obtain base where body: "body = spread base ?e"
    and base: "field base ''messages'' = Some (messages_js msgs)"
    using b body_messages_default
    by (auto simp: chatCompletionOVMS_body_def chatCompletionMegaService_body_def
        ollama_chatCompletion_body_def)
  show ?thesis
    using over none base by (simp add: body field_spread)
qed

theorem chatCompletion_body_extra_witness:
  "field (chatCompletionOVMS_body ''llm'' [\<lparr> role = User, content = ''hi'' \<rparr>] (Some 0.1) None
            (Some [(''temperature'', JNum 0.7), (''top_p'', JNum 0.9)])) ''temperature''
     = Some (JNum 0.7)
   \<and> field (chatCompletionOVMS_body ''llm'' [\<lparr> role = User, content = ''hi'' \<rparr>] (Some 0.1) None
            (Some [(''temperature'', JNum 0.7), (''top_p'', JNum 0.9)])) ''messages''
     = Some (messages_js [\<lparr> role = User, content = ''hi'' \<rparr>])"
proof -
  let ?extra = "Some [(''temperature'', JNum 0.7), (''top_p'', JNum 0.9)]"
  let ?msgs = "[\<lparr> role = User, content = ''hi'' \<rparr>]"
  let ?body = "chatCompletionOVMS_body ''llm'' ?msgs (Some 0.1) None ?extra"
  have e: "extra_or_empty ?extra = [(''temperature'', JNum 0.7), (''top_p'', JNum 0.9)]"
    by (simp add: extra_or_empty_def)
  have d: "distinct (map fst (extra_or_empty ?extra))"
    by (simp add: e)
  have m: "?body \<in> {chatCompletionOVMS_body ''llm'' ?msgs (Some 0.1) None ?extra,
            chatCompletionMegaService_body ''llm'' ?msgs (Some 0.1) None ?extra,
            ollama_chatCompletion_body ''llm'' ''30m'' ?msgs (Some 0.1) None ?extra}"
    by simp
  show ?thesis
    using chatCompletion_body_extra [OF m d] by (simp add: e)
qed

section \<open>Provider Gateway: reranking\<close>

text \<open>
  \<open>interface RerankDocument { text: string; id?: string }\<close> and
  \<open>interface RerankResult { index: number; relevance_score: number; document?: RerankDocument }\<close>.
  The fields \<open>text\<close> and \<open>id\<close> are \<open>doc_text\<close> and \<open>doc_id\<close> here. An index is an integer.
\<close>

record RerankDocument =
  doc_text :: string
  doc_id :: "string option"

record RerankResult =
  index :: int
  relevance_score :: real
  document :: "RerankDocument option"

text \<open>
  One entry of the provider's response, of which the source reads the fields \<open>index\<close>,
  \<open>relevance_score\<close> and \<open>score\<close>, each of which may be missing; and the response, of
  which it reads the lists \<open>results\<close> and \<open>data\<close>.
\<close>

record rerank_entry =
  e_index :: "int option"
  e_relevance_score :: "real option"
  e_score :: "real option"

record rerank_response =
  resp_results :: "rerank_entry list option"
  resp_data :: "rerank_entry list option"

record rerank_request =
  rq_model :: string
  rq_query :: string
  rq_texts :: "string list"
  rq_top_n :: int
  rq_return_documents :: "bool option"

definition js_nth :: "'a list \<Rightarrow> int \<Rightarrow> 'a option" where
  \<comment> \<open>\<open>xs[i]\<close>: \<open>undefined\<close> outside the range of the array\<close>
  "js_nth xs i = (if 0 \<le> i \<and> i < int (length xs) then Some (xs ! nat i) else None)"

definition entry_index :: "rerank_entry \<Rightarrow> nat \<Rightarrow> int" where
  \<comment> \<open>\<open>result.index ?? idx\<close>\<close>
  "entry_index result idx = (case e_index result of Some i \<Rightarrow> i | None \<Rightarrow> int idx)"

definition entry_score :: "rerank_entry \<Rightarrow> real" where
  \<comment> \<open>\<open>result.relevance_score ?? result.score ?? 0.0\<close>\<close>
  "entry_score result =
     (case e_relevance_score result of
        Some x \<Rightarrow> x
      | None \<Rightarrow> (case e_score result of Some x \<Rightarrow> x | None \<Rightarrow> 0))"

definition rerank_results :: "RerankDocument list \<Rightarrow> rerank_entry list \<Rightarrow> RerankResult list" where
  \<comment> \<open>the \<open>.map((result, idx) => ({ index: ..., relevance_score: ..., document: ... }))\<close>
      of both rerank functions\<close>
  "rerank_results documents entries =
     map (\<lambda>(result, idx).
            \<lparr> index = entry_index result idx,
              relevance_score = entry_score result,
              document = js_nth documents (entry_index result idx) \<rparr>)
         (zip entries [0..<length entries])"

definition ovms_entries :: "rerank_response option \<Rightarrow> rerank_entry list" where
  \<comment> \<open>\<open>resp.data?.results ?? resp.data?.data ?? []\<close>\<close>
  "ovms_entries d =
     (case d of
        None \<Rightarrow> []
      | Some r \<Rightarrow> (case resp_results r of
                     Some es \<Rightarrow> es
                   | None \<Rightarrow> (case resp_data r of Some es \<Rightarrow> es | None \<Rightarrow> [])))"

definition megaservice_entries :: "rerank_response option \<Rightarrow> rerank_entry list" where
  \<comment> \<open>\<open>resp.data?.results ?? []\<close>\<close>
  "megaservice_entries d =
     (case d of
        None \<Rightarrow> []
      | Some r \<Rightarrow> (case resp_results r of Some es \<Rightarrow> es | None \<Rightarrow> []))"

definition rerankOVMS ::
  "string \<Rightarrow> (rerank_request \<Rightarrow> error + rerank_response option)
     \<Rightarrow> string \<Rightarrow> RerankDocument list \<Rightarrow> int option \<Rightarrow> string option
     \<Rightarrow> error + RerankResult list" where
  "rerankOVMS rerankModelName post query documents topN model =
     (case post \<lparr> rq_model = js_or model rerankModelName,
                  rq_query = query,
                  rq_texts = map doc_text documents,
                  rq_top_n = (case topN of Some n \<Rightarrow> n | None \<Rightarrow> int (length documents)),
                  rq_return_documents = Some True \<rparr> of
        Inl _ \<Rightarrow> Inl ProviderFailure
      | Inr d \<Rightarrow> Inr (rerank_results documents (ovms_entries d)))"

definition rerankMegaService ::
  "string option \<Rightarrow> (rerank_request \<Rightarrow> error + rerank_response option)
     \<Rightarrow> string \<Rightarrow> RerankDocument list \<Rightarrow> int option \<Rightarrow> string option
     \<Rightarrow> error + RerankResult list" where
  "rerankMegaService env_OPEA_RERANK_MODEL post query documents topN model =
     (case post \<lparr> rq_model = (case model of
                                Some m \<Rightarrow> m
                              | None \<Rightarrow> (case env_OPEA_RERANK_MODEL of
                                           Some m \<Rightarrow> m
                                         | None \<Rightarrow> ''BAAI/bge-reranker-base'')),
                  rq_query = query,
                  rq_texts = map doc_text documents,
                  rq_top_n = (case topN of Some n \<Rightarrow> n | None \<Rightarrow> int (length documents)),
                  rq_return_documents = None \<rparr> of
        Inl _ \<Rightarrow> Inl ProviderFailure
      | Inr d \<Rightarrow> Inr (rerank_results documents (megaservice_entries d)))"

text \<open>
  \<open>rerank\<close> chooses by the backend mode. The configuration is the mode (\<open>True\<close> for
  \<open>ovms\<close>), the model name of the OVMS backend and the variable \<open>OPEA_RERANK_MODEL\<close>.
\<close>

definition rerank ::
  "bool \<Rightarrow> string \<Rightarrow> string option \<Rightarrow> (rerank_request \<Rightarrow> error + rerank_response option)
     \<Rightarrow> string \<Rightarrow> RerankDocument list \<Rightarrow> int option \<Rightarrow> string option
     \<Rightarrow> error + RerankResult list" where
  "rerank ovms rerankModelName env_OPEA_RERANK_MODEL post query documents topN model =
     (if ovms then rerankOVMS rerankModelName post query documents topN model
      else rerankMegaService env_OPEA_RERANK_MODEL post query documents topN model)"

text \<open>
  \<open>rerankHits\<close>. A hit is \<open>{ id, text, score }\<close> and a reranked hit has the field
  \<open>rerank_score\<close> in addition. \<open>params.hits[result.index]\<close> is \<open>undefined\<close> for an index
  outside the hits, and the read of its \<open>id\<close> then raises a \<open>TypeError\<close>. The sort is the
  stable sort of the engine with the comparator \<open>b.rerank_score - a.rerank_score\<close>.
\<close>

record hit =
  hit_id :: string
  hit_text :: string
  hit_score :: real

record reranked_hit = hit +
  rerank_score :: real

fun map_back :: "hit list \<Rightarrow> RerankResult list \<Rightarrow> error + reranked_hit list" where
  "map_back hits [] = Inr []"
| "map_back hits (result # rest) =
     (case js_nth hits (index result) of
        None \<Rightarrow> Inl TypeError
      | Some originalHit \<Rightarrow>
          (case map_back hits rest of
             Inl e \<Rightarrow> Inl e
           | Inr out \<Rightarrow>
               Inr (\<lparr> hit_id = hit_id originalHit,
                      hit_text = hit_text originalHit,
                      hit_score = hit_score originalHit,
                      rerank_score = relevance_score result \<rparr> # out)))"

definition rerankHits ::
  "(string \<Rightarrow> RerankDocument list \<Rightarrow> int option \<Rightarrow> string option \<Rightarrow> error + RerankResult list)
     \<Rightarrow> string \<Rightarrow> hit list \<Rightarrow> int option \<Rightarrow> error + reranked_hit list" where
  "rerankHits rerank_fn query hits topK =
     (let documents = map (\<lambda>h. \<lparr> doc_text = hit_text h, doc_id = Some (hit_id h) \<rparr>) hits
      in case rerank_fn query documents
                (Some (case topK of Some k \<Rightarrow> k | None \<Rightarrow> int (length hits))) None of
           Inl e \<Rightarrow> Inl e
         | Inr rerankResults \<Rightarrow>
             (case map_back hits rerankResults of
                Inl e \<Rightarrow> Inl e
              | Inr rerankedHits \<Rightarrow> Inr (sort_key (\<lambda>h. - rerank_score h) rerankedHits)))"

subsection \<open>Indices and scores of the rerank results\<close>

lemma rerank_results_length: "length (rerank_results documents entries) = length entries"
  by (simp add: rerank_results_def)

lemma rerank_results_nth:
  "k < length entries \<Longrightarrow>
   rerank_results documents entries ! k
     = \<lparr> index = entry_index (entries ! k) k,
         relevance_score = entry_score (entries ! k),
         document = js_nth documents (entry_index (entries ! k) k) \<rparr>"
  by (simp add: rerank_results_def)

lemma rerank_results_indices:
  "map index (rerank_results documents entries)
     = map (\<lambda>k. entry_index (entries ! k) k) [0..<length entries]"
  by (rule nth_equalityI) (simp_all add: rerank_results_length rerank_results_nth)

text \<open>
  Claim C4 as stated does not hold: the index of a result is the one the provider sent,
  unchecked. Here one document is reranked and the response has two entries, both with
  index 5 (the second without any score): the results carry index 5 twice, and 5 is
  not an index into the documents.
\<close>

theorem rerank_index_counterexample:
  "map index (rerank_results [\<lparr> doc_text = ''a'', doc_id = None \<rparr>]
       [\<lparr> e_index = Some 5, e_relevance_score = Some 0.9, e_score = None \<rparr>,
        \<lparr> e_index = Some 5, e_relevance_score = None, e_score = None \<rparr>]) = [5, 5]
   \<and> \<not> (5 < int (length [\<lparr> doc_text = ''a'', doc_id = None \<rparr>]))
   \<and> \<not> distinct (map index (rerank_results [\<lparr> doc_text = ''a'', doc_id = None \<rparr>]
       [\<lparr> e_index = Some 5, e_relevance_score = Some 0.9, e_score = None \<rparr>,
        \<lparr> e_index = Some 5, e_relevance_score = None, e_score = None \<rparr>]))"
  by (simp add: rerank_results_def entry_index_def upt_rec)

text \<open>
  Claim C4, amended. Whatever the provider answers, \<open>rerank\<close> returns one result for each
  entry of the response, in the order of the response. The index of a result is the
  \<open>index\<close> field of its entry, or the position of the entry when the field is missing;
  its document is the document at that index (\<open>undefined\<close> outside the list); its
  relevance score is the entry's \<open>relevance_score\<close>, else its \<open>score\<close>, else 0, and a
  missing score is no failure. Hence every result index is a valid index into the
  documents, and appears at most once, whenever the indices of the response are valid
  and pairwise distinct.
\<close>

theorem rerank_index_fidelity:
  assumes "entries = (if ovms then ovms_entries d else megaservice_entries d)"
  shows "\<exists>rs. rerank ovms nm env (\<lambda>_. Inr d) query documents topN model = Inr rs
     \<and> length rs = length entries
     \<and> (\<forall>k < length entries.
           index (rs ! k) = (case e_index (entries ! k) of Some i \<Rightarrow> i | None \<Rightarrow> int k)
         \<and> document (rs ! k) = js_nth documents (index (rs ! k))
         \<and> relevance_score (rs ! k)
             = (case e_relevance_score (entries ! k) of
                  Some x \<Rightarrow> x
                | None \<Rightarrow> (case e_score (entries ! k) of Some x \<Rightarrow> x | None \<Rightarrow> 0)))
     \<and> ((\<forall>k < length entries. 0 \<le> entry_index (entries ! k) k
               \<and> entry_index (entries ! k) k < int (length documents))
          \<and> distinct (map (\<lambda>k. entry_index (entries ! k) k) [0..<length entries])
         \<longrightarrow> (\<forall>r \<in> set rs. 0 \<le> index r \<and> index r < int (length documents))
             \<and> distinct (map index rs))"
proof -
  let ?rs = "rerank_results documents entries"
  have r: "rerank ovms nm env (\<lambda>_. Inr d) query documents topN model = Inr ?rs"
    by (simp add: rerank_def rerankOVMS_def rerankMegaService_def assms)
  have l: "length ?rs = length entries"
    by (rule rerank_results_length)
  have f: "\<forall>k < length entries.
           index (?rs ! k) = (case e_index (entries ! k) of Some i \<Rightarrow> i | None \<Rightarrow> int k)
         \<and> document (?rs ! k) = js_nth documents (index (?rs ! k))
         \<and> relevance_score (?rs ! k)
             = (case e_relevance_score (entries ! k) of
                  Some x \<Rightarrow> x
                | None \<Rightarrow> (case e_score (entries ! k) of Some x \<Rightarrow> x | None \<Rightarrow> 0))"
    by (simp add: rerank_results_nth entry_index_def entry_score_def)
  have v: "(\<forall>r \<in> set ?rs. 0 \<le> index r \<and> index r < int (length documents))
             \<and> distinct (map index ?rs)"
    if a: "(\<forall>k < length entries. 0 \<le> entry_index (entries ! k) k
               \<and> entry_index (entries ! k) k < int (length documents))
          \<and> distinct (map (\<lambda>k. entry_index (entries ! k) k) [0..<length entries])"
  proof
    show "\<forall>r \<in> set ?rs. 0 \<le> index r \<and> index r < int (length documents)"
    proof
      fix r assume "r \<in> set ?rs"
      then obtain k where "k < length entries" "r = ?rs ! k"
        by (auto simp: in_set_conv_nth rerank_results_length)
      then show "0 \<le> index r \<and> index r < int (length documents)"
        using a by (simp add: rerank_results_nth)
    qed
    show "distinct (map index ?rs)"
      using a by (simp add: rerank_results_indices)
  qed
  show ?thesis
    using r l f v by blast
qed

theorem rerank_index_fidelity_witness:
  "\<exists>rs. rerank True ''reranker'' None
           (\<lambda>_. Inr (Some \<lparr> resp_results =
                               Some [\<lparr> e_index = Some 1, e_relevance_score = Some 0.8, e_score = None \<rparr>,
                                     \<lparr> e_index = Some 0, e_relevance_score = None, e_score = None \<rparr>],
                             resp_data = None \<rparr>))
           ''pressure'' [\<lparr> doc_text = ''a'', doc_id = None \<rparr>, \<lparr> doc_text = ''b'', doc_id = None \<rparr>]
           None None = Inr rs
     \<and> length rs = 2
     \<and> index (rs ! 0) = 1 \<and> relevance_score (rs ! 0) = 0.8
     \<and> index (rs ! 1) = 0 \<and> relevance_score (rs ! 1) = 0
     \<and> (\<forall>r \<in> set rs. 0 \<le> index r \<and> index r < 2)
     \<and> distinct (map index rs)"
proof -
  let ?es = "[\<lparr> e_index = Some 1, e_relevance_score = Some 0.8, e_score = None \<rparr>,
              \<lparr> e_index = Some 0, e_relevance_score = None, e_score = None \<rparr>]"
  let ?d = "Some \<lparr> resp_results = Some ?es, resp_data = None \<rparr>"
  have e: "?es = (if True then ovms_entries ?d else megaservice_entries ?d)"
    by (simp add: ovms_entries_def)
  have valid: "(\<forall>k < length ?es. 0 \<le> entry_index (?es ! k) k
               \<and> entry_index (?es ! k) k < int (length [\<lparr> doc_text = ''a'', doc_id = None \<rparr>,
                     \<lparr> doc_text = ''b'', doc_id = None \<rparr>]))
          \<and> distinct (map (\<lambda>k. entry_index (?es ! k) k) [0..<length ?es])"
    by (simp add: entry_index_def upt_rec less_Suc_eq numeral_2_eq_2)
  from rerank_index_fidelity [OF e, of "''reranker''" None "''pressure''"
        "[\<lparr> doc_text = ''a'', doc_id = None \<rparr>, \<lparr> doc_text = ''b'', doc_id = None \<rparr>]" None None]
  obtain rs where r: "rerank True ''reranker'' None (\<lambda>_. Inr ?d) ''pressure''
           [\<lparr> doc_text = ''a'', doc_id = None \<rparr>, \<lparr> doc_text = ''b'', doc_id = None \<rparr>]
           None None = Inr rs"
    and l: "length rs = length ?es"
    and f: "\<forall>k < length ?es.
           index (rs ! k) = (case e_index (?es ! k) of Some i \<Rightarrow> i | None \<Rightarrow> int k)
         \<and> document (rs ! k) = js_nth [\<lparr> doc_text = ''a'', doc_id = None \<rparr>,
                     \<lparr> doc_text = ''b'', doc_id = None \<rparr>] (index (rs ! k))
         \<and> relevance_score (rs ! k)
             = (case e_relevance_score (?es ! k) of
                  Some x \<Rightarrow> x
                | None \<Rightarrow> (case e_score (?es ! k) of Some x \<Rightarrow> x | None \<Rightarrow> 0))"
    and v: "(\<forall>k < length ?es. 0 \<le> entry_index (?es ! k) k
               \<and> entry_index (?es ! k) k < int (length [\<lparr> doc_text = ''a'', doc_id = None \<rparr>,
                     \<lparr> doc_text = ''b'', doc_id = None \<rparr>]))
          \<and> distinct (map (\<lambda>k. entry_index (?es ! k) k) [0..<length ?es])
         \<longrightarrow> (\<forall>r \<in> set rs. 0 \<le> index r \<and> index r < int (length [\<lparr> doc_text = ''a'', doc_id = None \<rparr>,
                     \<lparr> doc_text = ''b'', doc_id = None \<rparr>]))
             \<and> distinct (map index rs)"
    by blast
  have f0: "index (rs ! 0) = 1 \<and> relevance_score (rs ! 0) = 0.8"
    using f [rule_format, of 0] by simp
  have f1: "index (rs ! 1) = 0 \<and> relevance_score (rs ! 1) = 0"
    using f [rule_format, of 1] by simp
  have v': "(\<forall>r \<in> set rs. 0 \<le> index r \<and> index r < 2) \<and> distinct (map index rs)"
    using v valid by simp
  show ?thesis
    using r l f0 f1 v' by (intro exI [of _ rs]) simp
qed

subsection \<open>\<open>rerankHits\<close>\<close>

lemma map_back_in_range:
  "\<forall>r \<in> set results. 0 \<le> index r \<and> index r < int (length hits) \<Longrightarrow>
   map_back hits results
     = Inr (map (\<lambda>r. \<lparr> hit_id = hit_id (hits ! nat (index r)),
                        hit_text = hit_text (hits ! nat (index r)),
                        hit_score = hit_score (hits ! nat (index r)),
                        rerank_score = relevance_score r \<rparr>) results)"
  by (induction results) (simp_all add: js_nth_def)

lemma map_back_out_of_range:
  "\<exists>r \<in> set results. \<not> (0 \<le> index r \<and> index r < int (length hits)) \<Longrightarrow>
   map_back hits results = Inl TypeError"
  by (induction results) (auto simp: js_nth_def split: sum.splits option.splits)

lemma sorted_desc_sort_key:
  "sorted_wrt (\<lambda>a b. rerank_score a \<ge> rerank_score b) (sort_key (\<lambda>h. - rerank_score h) xs)"
proof -
  have "sorted (map (\<lambda>h. - rerank_score h) (sort_key (\<lambda>h. - rerank_score h) xs))"
    by (rule sorted_sort_key)
  then show ?thesis
    by (simp add: sorted_map)
qed

text \<open>
  Claim C8. When every index of the rerank results lies within the hits, \<open>rerankHits\<close>
  returns normally, with one record for each rerank result: the \<open>id\<close>, \<open>text\<close> and
  \<open>score\<close> of the hit at the result's index (the score of the retrieval is kept) and the
  relevance score as \<open>rerank_score\<close>. The returned list holds exactly these records and
  is sorted by \<open>rerank_score\<close>, highest first.
\<close>

theorem rerankHits_spec:
  assumes "rerank_fn query (map (\<lambda>h. \<lparr> doc_text = hit_text h, doc_id = Some (hit_id h) \<rparr>) hits)
             (Some (case topK of Some k \<Rightarrow> k | None \<Rightarrow> int (length hits))) None = Inr results"
    and "\<forall>r \<in> set results. 0 \<le> index r \<and> index r < int (length hits)"
  shows "\<exists>out. rerankHits rerank_fn query hits topK = Inr out
     \<and> length out = length results
     \<and> mset out = mset (map (\<lambda>r. \<lparr> hit_id = hit_id (hits ! nat (index r)),
                        hit_text = hit_text (hits ! nat (index r)),
                        hit_score = hit_score (hits ! nat (index r)),
                        rerank_score = relevance_score r \<rparr>) results)
     \<and> sorted_wrt (\<lambda>a b. rerank_score a \<ge> rerank_score b) out"
proof -
  let ?f = "\<lambda>r. \<lparr> hit_id = hit_id (hits ! nat (index r)),
                        hit_text = hit_text (hits ! nat (index r)),
                        hit_score = hit_score (hits ! nat (index r)),
                        rerank_score = relevance_score r \<rparr>"
  let ?out = "sort_key (\<lambda>h. - rerank_score h) (map ?f results)"
  have "rerankHits rerank_fn query hits topK = Inr ?out"
    using assms(1) map_back_in_range [OF assms(2)]
    by (simp add: rerankHits_def)
  moreover have "length ?out = length results" by simp
  moreover have "mset ?out = mset (map ?f results)" by simp
  moreover have "sorted_wrt (\<lambda>a b. rerank_score a \<ge> rerank_score b) ?out"
    by (rule sorted_desc_sort_key)
  ultimately show ?thesis by blast
qed

theorem rerankHits_spec_witness:
  "\<exists>out. rerankHits
            (\<lambda>q docs topN model.
               Inr [\<lparr> index = 1, relevance_score = 0.2, document = None \<rparr>,
                    \<lparr> index = 0, relevance_score = 0.9, document = None \<rparr>])
            ''pressure''
            [\<lparr> hit_id = ''h0'', hit_text = ''valve'', hit_score = 0.5 \<rparr>,
             \<lparr> hit_id = ''h1'', hit_text = ''pump'', hit_score = 0.7 \<rparr>] None = Inr out
     \<and> length out = 2
     \<and> mset out = {# \<lparr> hit_id = ''h1'', hit_text = ''pump'', hit_score = 0.7, rerank_score = 0.2 \<rparr>,
                      \<lparr> hit_id = ''h0'', hit_text = ''valve'', hit_score = 0.5, rerank_score = 0.9 \<rparr> #}
     \<and> sorted_wrt (\<lambda>a b. rerank_score a \<ge> rerank_score b) out"
proof -
  let ?hits = "[\<lparr> hit_id = ''h0'', hit_text = ''valve'', hit_score = 0.5 \<rparr>,
             \<lparr> hit_id = ''h1'', hit_text = ''pump'', hit_score = 0.7 \<rparr>]"
  let ?results = "[\<lparr> index = 1, relevance_score = 0.2, document = None \<rparr>,
                    \<lparr> index = 0, relevance_score = 0.9, document = None \<rparr>]"
  let ?fn = "\<lambda>(q :: string) (docs :: RerankDocument list) (topN :: int option)
               (model :: string option). (Inr ?results :: error + RerankResult list)"
  have a: "?fn ''pressure'' (map (\<lambda>h. \<lparr> doc_text = hit_text h, doc_id = Some (hit_id h) \<rparr>) ?hits)
             (Some (case None of Some k \<Rightarrow> k | None \<Rightarrow> int (length ?hits))) None = Inr ?results"
    by simp
  have b: "\<forall>r \<in> set ?results. 0 \<le> index r \<and> index r < int (length ?hits)"
    by simp
  show ?thesis
    using rerankHits_spec [of ?fn "''pressure''" ?hits None ?results, OF a b]
    by (simp add: numeral_2_eq_2)
qed

section \<open>Intent Classifier: from the completion to the intent\<close>

text \<open>
  Property reads on a value of type \<open>any\<close>. None of the keys the detectors read
  (\<open>choices\<close>, \<open>message\<close>, \<open>content\<close>, \<open>text\<close>, \<open>value\<close>) is a built-in property of a
  string, a number, a boolean or an array, so only an object can hold them.
  \<open>x?.k\<close> is \<open>opt_member\<close>; \<open>x.k\<close> is \<open>member\<close>, which raises a \<open>TypeError\<close> on \<open>null\<close> and
  \<open>undefined\<close>; \<open>x?.[0]\<close> is \<open>opt_index0\<close>.
\<close>

definition opt_member :: "jsval \<Rightarrow> string \<Rightarrow> jsval" where
  "opt_member x k =
     (case x of
        JObj kvs \<Rightarrow> (case map_of kvs k of Some v \<Rightarrow> v | None \<Rightarrow> JUndefined)
      | _ \<Rightarrow> JUndefined)"

definition member :: "jsval \<Rightarrow> string \<Rightarrow> error + jsval" where
  "member x k =
     (case x of
        JUndefined \<Rightarrow> Inl TypeError
      | JNull \<Rightarrow> Inl TypeError
      | _ \<Rightarrow> Inr (opt_member x k))"

definition opt_index0 :: "jsval \<Rightarrow> jsval" where
  "opt_index0 x =
     (case x of
        JArr xs \<Rightarrow> (case xs of [] \<Rightarrow> JUndefined | y # _ \<Rightarrow> y)
      | JStr s \<Rightarrow> (case s of [] \<Rightarrow> JUndefined | c # _ \<Rightarrow> JStr [c])
      | JObj kvs \<Rightarrow> (case map_of kvs ''0'' of Some v \<Rightarrow> v | None \<Rightarrow> JUndefined)
      | _ \<Rightarrow> JUndefined)"

definition completion_content :: "jsval \<Rightarrow> jsval" where
  \<comment> \<open>\<open>(r as any)?.choices?.[0]?.message?.content\<close>\<close>
  "completion_content r =
     opt_member (opt_member (opt_index0 (opt_member r ''choices'')) ''message'') ''content''"

definition bindE :: "error + 'a \<Rightarrow> ('a \<Rightarrow> error + 'b) \<Rightarrow> error + 'b" where
  "bindE m f = (case m of Inl e \<Rightarrow> Inl e | Inr x \<Rightarrow> f x)"

text \<open>
  \<open>asString\<close> of the chart detector. \<open>JSON.stringify\<close> and \<open>String\<close> are parameters.
  \<^verbatim>\<open>
  function asString(x: any): string {
      if (typeof x === 'string') return x;
      if (x == null) return '';
      if (typeof x === 'object') {
          if (x.content && typeof x.content === 'string') return x.content;
          if (x.text && typeof x.text === 'string') return x.text;
          if (x.message && typeof x.message === 'string') return x.message;
          return JSON.stringify(x);
      }
      return String(x);
  }
  \<close>
\<close>

definition nonempty_string :: "jsval \<Rightarrow> string option" where
  \<comment> \<open>\<open>v && typeof v === 'string'\<close>\<close>
  "nonempty_string v = (case v of JStr s \<Rightarrow> if s \<noteq> [] then Some s else None | _ \<Rightarrow> None)"

definition asString_chart :: "(jsval \<Rightarrow> string) \<Rightarrow> (jsval \<Rightarrow> string) \<Rightarrow> jsval \<Rightarrow> error + string" where
  "asString_chart stringify toString x =
     (case x of
        JStr s \<Rightarrow> Inr s
      | JUndefined \<Rightarrow> Inr []
      | JNull \<Rightarrow> Inr []
      | JBool _ \<Rightarrow> Inr (toString x)
      | JNum _ \<Rightarrow> Inr (toString x)
      | _ \<Rightarrow>
          bindE (member x ''content'') (\<lambda>c.
            case nonempty_string c of
              Some s \<Rightarrow> Inr s
            | None \<Rightarrow>
                bindE (member x ''text'') (\<lambda>t.
                  case nonempty_string t of
                    Some s \<Rightarrow> Inr s
                  | None \<Rightarrow>
                      bindE (member x ''message'') (\<lambda>m.
                        case nonempty_string m of
                          Some s \<Rightarrow> Inr s
                        | None \<Rightarrow> Inr (stringify x)))))"

text \<open>
  \<open>asString\<close> of the alert detector; every property read in it is an optional one.
  \<^verbatim>\<open>
  function asString(x: any): string {
      if (typeof x === 'string') return x;
      if (Array.isArray(x)) {
          return x.map(p =>
              typeof p === 'string' ? p
                  : typeof p?.text === 'string' ? p.text
                      : typeof p?.text?.value === 'string' ? p.text.value
                          : ''
          ).filter(Boolean).join('\n');
      }
      if (x && typeof x === 'object') return JSON.stringify(x);
      return '';
  }
  \<close>
\<close>

definition content_part :: "jsval \<Rightarrow> string" where
  "content_part p =
     (case p of
        JStr s \<Rightarrow> s
      | _ \<Rightarrow> (case opt_member p ''text'' of
                JStr s \<Rightarrow> s
              | t \<Rightarrow> (case opt_member t ''value'' of JStr s \<Rightarrow> s | _ \<Rightarrow> [])))"

definition asString_alert :: "(jsval \<Rightarrow> string) \<Rightarrow> jsval \<Rightarrow> string" where
  "asString_alert stringify x =
     (case x of
        JStr s \<Rightarrow> s
      | JArr ps \<Rightarrow> join [CHR 10] (filter (\<lambda>s. s \<noteq> []) (map content_part ps))
      | JObj _ \<Rightarrow> stringify x
      | _ \<Rightarrow> [])"

text \<open>
  \<open>out.replace(/^```(?:json)?\s*|\s*```$/g, '').trim()\<close>. The first alternative can
  match only at the start of the text: three backticks, then \<open>json\<close> if it follows, then
  all the white space that follows. The second alternative matches only at the end
  of what remains: three backticks closing the text, together with the white space
  before them. White space is that of ASCII.
\<close>

definition fence :: string where
  "fence = replicate 3 (CHR 0x60)"

definition strip_leading_fence :: "string \<Rightarrow> string option" where
  "strip_leading_fence s =
     (if take 3 s = fence
      then (let r = drop 3 s;
                r' = (if take 4 r = ''json'' then drop 4 r else r)
            in Some (dropWhile is_space r'))
      else None)"

definition strip_trailing_fence :: "string \<Rightarrow> string" where
  "strip_trailing_fence s =
     (if length s \<ge> 3 \<and> drop (length s - 3) s = fence
      then rev (dropWhile is_space (rev (take (length s - 3) s)))
      else s)"

definition strip_fences :: "string \<Rightarrow> string" where
  "strip_fences s =
     (case strip_leading_fence s of
        Some r \<Rightarrow> strip_trailing_fence r
      | None \<Rightarrow> strip_trailing_fence s)"

text \<open>
  The detectors, from the completion on. Their parameters: \<open>llm\<close> builds the prompt from
  the text of the user and calls the chat completion of the provider (it may raise);
  \<open>parse\<close> is \<open>JSON.parse\<close>, with \<open>None\<close> for the \<open>SyntaxError\<close> it raises. The result is the
  parsed value, which the source returns as it is, and the lines written to the log
  after the completion has arrived.
  \<^verbatim>\<open>
  try { return JSON.parse(cleaned); }
  catch (err) {
      this.log.warn('Failed to parse chart intent JSON:', cleaned);
      return { wants_chart: false };
  }
  \<close>
\<close>

datatype log_level = LogDebug | LogWarn | LogError

definition no_chart_intent :: jsval where
  "no_chart_intent = JObj [(''wants_chart'', JBool False)]"

definition no_alert_intent :: jsval where
  "no_alert_intent = JObj [(''wants_alert'', JBool False)]"

definition detectChartIntent ::
  "(string \<Rightarrow> error + jsval) \<Rightarrow> (string \<Rightarrow> jsval option) \<Rightarrow> (jsval \<Rightarrow> string) \<Rightarrow> (jsval \<Rightarrow> string)
     \<Rightarrow> string \<Rightarrow> error + jsval \<times> (log_level \<times> string) list" where
  "detectChartIntent llm parse stringify toString lastUserText =
     bindE (llm lastUserText) (\<lambda>r.
       bindE (asString_chart stringify toString (completion_content r)) (\<lambda>out.
         let cleaned = trim (strip_fences out)
         in case parse cleaned of
              Some v \<Rightarrow>
                Inr (v, [(LogDebug, ''Chart intent response:''),
                         (LogDebug, ''Chart intent cleaned response:'')])
            | None \<Rightarrow>
                Inr (no_chart_intent,
                     [(LogDebug, ''Chart intent response:''),
                      (LogDebug, ''Chart intent cleaned response:''),
                      (LogWarn, ''Failed to parse chart intent JSON:'')])))"

definition detectAlertIntent ::
  "(string \<Rightarrow> error + jsval) \<Rightarrow> (string \<Rightarrow> jsval option) \<Rightarrow> (jsval \<Rightarrow> string)
     \<Rightarrow> string \<Rightarrow> error + jsval \<times> (log_level \<times> string) list" where
  "detectAlertIntent llm parse stringify lastUserText =
     bindE (llm lastUserText) (\<lambda>r.
       let out = asString_alert stringify (completion_content r);
           cleaned = trim (strip_fences out)
       in case parse cleaned of
            Some v \<Rightarrow>
              Inr (v, [(LogDebug, ''Alert intent response:''),
                       (LogDebug, ''Chart intent response:'')])
          | None \<Rightarrow>
              Inr (no_alert_intent,
                   [(LogDebug, ''Alert intent response:''),
                    (LogDebug, ''Chart intent response:''),
                    (LogError, ''Error parsing alert intent response:'')]))"

subsection \<open>A parse failure is recovered\<close>

lemma asString_chart_total: "\<exists>out. asString_chart stringify toString x = Inr out"
  by (cases x)
    (auto simp: asString_chart_def member_def bindE_def split: option.splits)

text \<open>
  Claim C9. Whatever the completion holds as its content (a string, an array of
  content parts, an object, anything else), neither detector raises once the completion
  has arrived: the coercion of the content to a string succeeds, and when \<open>JSON.parse\<close>
  fails on the cleaned text the detector returns \<open>{wants_chart: false}\<close>, respectively
  \<open>{wants_alert: false}\<close>, and writes the failure to the log.
\<close>

theorem intent_parse_failure_recovered:
  "(\<exists>out. asString_chart stringify toString (completion_content r) = Inr out
      \<and> (parse (trim (strip_fences out)) = None \<longrightarrow>
           (\<exists>lg. detectChartIntent (\<lambda>_. Inr r) parse stringify toString txt
                    = Inr (no_chart_intent, lg)
                \<and> (LogWarn, ''Failed to parse chart intent JSON:'') \<in> set lg)))
   \<and> (parse (trim (strip_fences (asString_alert stringify (completion_content r)))) = None \<longrightarrow>
        (\<exists>lg. detectAlertIntent (\<lambda>_. Inr r) parse stringify txt = Inr (no_alert_intent, lg)
             \<and> (LogError, ''Error parsing alert intent response:'') \<in> set lg))
   \<and> (\<exists>res. detectChartIntent (\<lambda>_. Inr r) parse stringify toString txt = Inr res)
   \<and> (\<exists>res. detectAlertIntent (\<lambda>_. Inr r) parse stringify txt = Inr res)"
proof -
  obtain out where out: "asString_chart stringify toString (completion_content r) = Inr out"
    using asString_chart_total by blast
  have c: "parse (trim (strip_fences out)) = None \<longrightarrow>
           (\<exists>lg. detectChartIntent (\<lambda>_. Inr r) parse stringify toString txt
                    = Inr (no_chart_intent, lg)
                \<and> (LogWarn, ''Failed to parse chart intent JSON:'') \<in> set lg)"
    by (simp add: detectChartIntent_def bindE_def out)
  have a: "parse (trim (strip_fences (asString_alert stringify (completion_content r)))) = None \<longrightarrow>
        (\<exists>lg. detectAlertIntent (\<lambda>_. Inr r) parse stringify txt = Inr (no_alert_intent, lg)
             \<and> (LogError, ''Error parsing alert intent response:'') \<in> set lg)"
    by (simp add: detectAlertIntent_def bindE_def)
  have c': "\<exists>res. detectChartIntent (\<lambda>_. Inr r) parse stringify toString txt = Inr res"
    by (simp add: detectChartIntent_def bindE_def out split: option.splits)
  have a': "\<exists>res. detectAlertIntent (\<lambda>_. Inr r) parse stringify txt = Inr res"
    by (simp add: detectAlertIntent_def bindE_def Let_def split: option.splits)
  have "\<exists>out. asString_chart stringify toString (completion_content r) = Inr out
      \<and> (parse (trim (strip_fences out)) = None \<longrightarrow>
           (\<exists>lg. detectChartIntent (\<lambda>_. Inr r) parse stringify toString txt
                    = Inr (no_chart_intent, lg)
                \<and> (LogWarn, ''Failed to parse chart intent JSON:'') \<in> set lg))"
    using out c by (intro exI [of _ out] conjI)
  then show ?thesis
    using a c' a' by (intro conjI)
qed

theorem intent_parse_failure_recovered_witness:
  "(\<exists>lg. detectChartIntent
            (\<lambda>_. Inr (JObj [(''choices'',
                     JArr [JObj [(''message'', JObj [(''content'', JStr ''Sorry, no JSON.'')])]])]))
            (\<lambda>s. if s = ''null'' then Some JNull else None) (\<lambda>_. ''{}'') (\<lambda>_. ''0'')
            ''show alerts'' = Inr (no_chart_intent, lg)
        \<and> (LogWarn, ''Failed to parse chart intent JSON:'') \<in> set lg)
   \<and> (\<exists>lg. detectAlertIntent
            (\<lambda>_. Inr (JObj [(''choices'',
                     JArr [JObj [(''message'', JObj [(''content'', JStr ''Sorry, no JSON.'')])]])]))
            (\<lambda>s. if s = ''null'' then Some JNull else None) (\<lambda>_. ''{}'')
            ''show alerts'' = Inr (no_alert_intent, lg)
        \<and> (LogError, ''Error parsing alert intent response:'') \<in> set lg)"
proof -
  let ?r = "JObj [(''choices'',
                     JArr [JObj [(''message'', JObj [(''content'', JStr ''Sorry, no JSON.'')])]])]"
  let ?parse = "\<lambda>s. if s = ''null'' then Some JNull else None"
  have cc: "completion_content ?r = JStr ''Sorry, no JSON.''"
    by (simp add: completion_content_def opt_member_def opt_index0_def)
  have sc: "asString_chart (\<lambda>_. ''{}'') (\<lambda>_. ''0'') (completion_content ?r) = Inr ''Sorry, no JSON.''"
    by (simp add: cc asString_chart_def)
  have sa: "asString_alert (\<lambda>_. ''{}'') (completion_content ?r) = ''Sorry, no JSON.''"
    by (simp add: cc asString_alert_def)
  have cl: "trim (strip_fences ''Sorry, no JSON.'') = ''Sorry, no JSON.''"
    by code_simp
  have p: "?parse (trim (strip_fences ''Sorry, no JSON.'')) = None"
    by (simp add: cl)
  show ?thesis
    using intent_parse_failure_recovered [of "\<lambda>_. ''{}''" "\<lambda>_. ''0''" ?r ?parse "''show alerts''"]
      p
    by (simp add: sc sa)
qed

section \<open>Token masking: \<open>mask\<close> and \<open>unmask\<close>\<close>

text \<open>
  \<^verbatim>\<open>
  private mask(input: string, key: string): string {
      return input.split('').map((char, i) =>
          (char.charCodeAt(0) ^ key.charCodeAt(i % key.length)).toString(16).padStart(2, '0')
      ).join('');
  }

  private unmask(masked: string, key: string): string {
      if (!key) { throw new Error('Mask secret not defined'); }
      const bytes = masked.match(/.{1,2}/g)!.map((h) => parseInt(h, 16));
      return String.fromCharCode(
          ...bytes.map((b, i) => b ^ key.charCodeAt(i % key.length))
      );
  }
  \<close>
  The input of \<open>mask\<close>, the key and the output of \<open>unmask\<close> are sequences of UTF-16 code
  units, 16-bit words. The masked text is a HOL string.
\<close>

type_synonym code_unit = "16 word"

text \<open>
  \<open>n.toString(16)\<close> for a number that is not negative, and \<open>padStart(2, '0')\<close>.
\<close>

definition hex_digit :: "nat \<Rightarrow> char" where
  "hex_digit n = ''0123456789abcdef'' ! n"

fun to_hex :: "nat \<Rightarrow> string" where
  "to_hex n = (if n < 16 then [hex_digit n] else to_hex (n div 16) @ [hex_digit (n mod 16)])"

declare to_hex.simps [simp del]

definition padStart2 :: "string \<Rightarrow> string" where
  "padStart2 s = replicate (2 - length s) (CHR ''0'') @ s"

text \<open>
  \<open>key.charCodeAt(i % key.length)\<close> as an operand of \<open>^\<close>. For the empty key the index is
  \<open>NaN\<close> and so is the code, which \<open>^\<close> reads as 0.
\<close>

definition key_code :: "code_unit list \<Rightarrow> nat \<Rightarrow> code_unit" where
  "key_code key i = (if key = [] then 0 else key ! (i mod length key))"

definition mask :: "code_unit list \<Rightarrow> code_unit list \<Rightarrow> string" where
  "mask input key =
     concat (map (\<lambda>(c, i). padStart2 (to_hex (unat (c XOR key_code key i))))
               (zip input [0..<length input]))"

text \<open>
  \<open>masked.match(/.{1,2}/g)\<close>: the text is cut into pieces of two characters, from the
  left; the dot matches no line terminator, so a piece ends before one and the line
  terminator itself is in no piece. Without any piece the result is \<open>null\<close>.
\<close>

definition is_line_terminator :: "char \<Rightarrow> bool" where
  "is_line_terminator c = (c = CHR 10 \<or> c = CHR 13)"

fun chunks :: "string \<Rightarrow> string list" where
  "chunks [] = []"
| "chunks [a] = (if is_line_terminator a then [] else [[a]])"
| "chunks (a # b # r) =
     (if is_line_terminator a then chunks (b # r)
      else if is_line_terminator b then [a] # chunks r
      else [a, b] # chunks r)"

text \<open>
  \<open>parseInt(h, 16)\<close>: leading white space is skipped, then a sign, then \<open>0x\<close> or \<open>0X\<close>;
  the longest run of hexadecimal digits that follows is the value, and \<open>NaN\<close> (here
  \<open>None\<close>) is returned when there is no digit.
\<close>

definition hex_value :: "char \<Rightarrow> nat option" where
  "hex_value c =
     (let n = (of_char c :: nat)
      in if 48 \<le> n \<and> n \<le> 57 then Some (n - 48)
         else if 97 \<le> n \<and> n \<le> 102 then Some (n - 87)
         else if 65 \<le> n \<and> n \<le> 70 then Some (n - 55)
         else None)"

definition parseInt16 :: "string \<Rightarrow> int option" where
  "parseInt16 s =
     (let s1 = dropWhile is_space s;
          neg = (take 1 s1 = ''-'');
          s2 = (if take 1 s1 = ''-'' \<or> take 1 s1 = ''+'' then drop 1 s1 else s1);
          s3 = (if take 2 s2 = ''0x'' \<or> take 2 s2 = ''0X'' then drop 2 s2 else s2);
          ds = takeWhile (\<lambda>c. hex_value c \<noteq> None) s3
      in if ds = [] then None
         else Some ((if neg then - 1 else 1)
                    * int (foldl (\<lambda>acc c. 16 * acc + the (hex_value c)) 0 ds)))"

text \<open>
  \<open>b ^ code\<close> reads \<open>NaN\<close> as 0, and \<open>String.fromCharCode\<close> keeps the low 16 bits of each
  number.
\<close>

definition unmask :: "string \<Rightarrow> code_unit list \<Rightarrow> error + code_unit list" where
  "unmask masked key =
     (if key = [] then Inl MaskSecretNotDefined
      else (case chunks masked of
              [] \<Rightarrow> Inl TypeError
            | h # hs \<Rightarrow>
                Inr (map (\<lambda>(h, i). word_of_int (case parseInt16 h of None \<Rightarrow> 0 | Some b \<Rightarrow> b)
                                      XOR key_code key i)
                       (zip (h # hs) [0..<length (h # hs)]))))"


text \<open>The two hexadecimal digits that \<open>mask\<close> writes for a character whose masked code is below 256.\<close>

definition byte_hex :: "code_unit list \<Rightarrow> code_unit \<times> nat \<Rightarrow> string" where
  "byte_hex key p = (case p of (c, i) \<Rightarrow>
      [hex_digit (unat (c XOR key_code key i) div 16), hex_digit (unat (c XOR key_code key i) mod 16)])"

subsection \<open>The round trip\<close>

lemma hex_digit_all:
  "list_all (\<lambda>a. hex_value (hex_digit a) = Some a
       \<and> \<not> is_space (hex_digit a)
       \<and> \<not> is_line_terminator (hex_digit a)
       \<and> hex_digit a \<noteq> CHR ''-'' \<and> hex_digit a \<noteq> CHR ''+''
       \<and> hex_digit a \<noteq> CHR ''x'' \<and> hex_digit a \<noteq> CHR ''X''
       \<and> hex_digit a \<in> set ''0123456789abcdef'') [0..<16]"
  by code_simp

lemma hex_digit_facts:
  assumes "a < 16"
  shows "hex_value (hex_digit a) = Some a"
    and "\<not> is_space (hex_digit a)"
    and "\<not> is_line_terminator (hex_digit a)"
    and "hex_digit a \<noteq> CHR ''-''" and "hex_digit a \<noteq> CHR ''+''"
    and "hex_digit a \<noteq> CHR ''x''" and "hex_digit a \<noteq> CHR ''X''"
    and "hex_digit a \<in> set ''0123456789abcdef''"
proof -
  have "a \<in> set [0..<16]" using assms by simp
  with hex_digit_all
  have "hex_value (hex_digit a) = Some a
       \<and> \<not> is_space (hex_digit a)
       \<and> \<not> is_line_terminator (hex_digit a)
       \<and> hex_digit a \<noteq> CHR ''-'' \<and> hex_digit a \<noteq> CHR ''+''
       \<and> hex_digit a \<noteq> CHR ''x'' \<and> hex_digit a \<noteq> CHR ''X''
       \<and> hex_digit a \<in> set ''0123456789abcdef''"
    unfolding list_all_iff by blast
  then show "hex_value (hex_digit a) = Some a"
    and "\<not> is_space (hex_digit a)"
    and "\<not> is_line_terminator (hex_digit a)"
    and "hex_digit a \<noteq> CHR ''-''" and "hex_digit a \<noteq> CHR ''+''"
    and "hex_digit a \<noteq> CHR ''x''" and "hex_digit a \<noteq> CHR ''X''"
    and "hex_digit a \<in> set ''0123456789abcdef''"
    by blast+
qed

lemma parseInt16_hex2:
  assumes "a < 16" and "b < 16"
  shows "parseInt16 [hex_digit a, hex_digit b] = Some (int (16 * a + b))"
  using hex_digit_facts [OF assms(1)] hex_digit_facts [OF assms(2)]
  by (simp add: parseInt16_def Let_def)


lemma to_hex_small: "n < 16 \<Longrightarrow> to_hex n = [hex_digit n]"
  by (subst to_hex.simps) simp

lemma hex_digit_0: "hex_digit 0 = CHR ''0''"
  by (simp add: hex_digit_def)

lemma pad_hex_byte:
  assumes "n < 256"
  shows "padStart2 (to_hex n) = [hex_digit (n div 16), hex_digit (n mod 16)]"
proof (cases "n < 16")
  case True
  then show ?thesis
    by (simp add: to_hex_small padStart2_def hex_digit_0)
next
  case False
  have "n div 16 < 16" using assms by simp
  then have "to_hex n = [hex_digit (n div 16), hex_digit (n mod 16)]"
    using False by (subst to_hex.simps) (simp add: to_hex_small)
  then show ?thesis by (simp add: padStart2_def)
qed

lemma chunks_concat:
  "\<forall>x \<in> set xs. length x = 2 \<and> (\<forall>c \<in> set x. \<not> is_line_terminator c) \<Longrightarrow>
   chunks (concat xs) = xs"
proof (induction xs)
  case Nil
  show ?case by simp
next
  case (Cons x xs)
  then obtain a b where x: "x = [a, b]"
    by (cases x; cases "tl x") auto
  with Cons show ?case by simp
qed

lemma mask_bytes:
  assumes "\<forall>i < length input. unat (input ! i XOR key_code key i) < 256"
  shows "mask input key = concat (map (byte_hex key) (zip input [0..<length input]))"
proof -
  have "map (\<lambda>(c, i). padStart2 (to_hex (unat (c XOR key_code key i)))) (zip input [0..<length input])
          = map (byte_hex key) (zip input [0..<length input])"
    using assms by (intro nth_equalityI) (simp_all add: byte_hex_def pad_hex_byte)
  then show ?thesis by (simp only: mask_def)
qed

lemma zip_upt_elem: "(c, i) \<in> set (zip xs [0..<length xs]) \<Longrightarrow> i < length xs \<and> c = xs ! i"
  by (auto simp: in_set_zip)

lemma byte_hex_digits:
  assumes "\<forall>i < length input. unat (input ! i XOR key_code key i) < 256"
    and "x \<in> set (map (byte_hex key) (zip input [0..<length input]))"
  shows "\<exists>a b. a < 16 \<and> b < 16 \<and> x = [hex_digit a, hex_digit b]"
proof -
  from assms(2) obtain p where p: "p \<in> set (zip input [0..<length input])"
    and x: "x = byte_hex key p"
    unfolding set_map by (rule imageE)
  obtain c i where ci: "p = (c, i)" by (cases p)
  define n where "n = unat (c XOR key_code key i)"
  from zip_upt_elem [of c i input] p ci assms(1) have "n < 256"
    unfolding n_def by simp
  then have d: "n div 16 < 16" by simp
  have m: "n mod 16 < 16" by simp
  have "x = [hex_digit (n div 16), hex_digit (n mod 16)]"
    unfolding x ci byte_hex_def n_def by simp
  with d m show ?thesis
    by (intro exI [of _ "n div 16"] exI [of _ "n mod 16"]) simp
qed

lemma chunks_mask:
  assumes "\<forall>i < length input. unat (input ! i XOR key_code key i) < 256"
  shows "chunks (mask input key) = map (byte_hex key) (zip input [0..<length input])"
proof -
  have "\<forall>x \<in> set (map (byte_hex key) (zip input [0..<length input])).
          length x = 2 \<and> (\<forall>c \<in> set x. \<not> is_line_terminator c)"
  proof
    fix x assume "x \<in> set (map (byte_hex key) (zip input [0..<length input]))"
    from byte_hex_digits [OF assms this]
    obtain a b where "a < 16" "b < 16" "x = [hex_digit a, hex_digit b]" by blast
    then show "length x = 2 \<and> (\<forall>c \<in> set x. \<not> is_line_terminator c)"
      by (simp add: hex_digit_facts(3))
  qed
  then show ?thesis
    unfolding mask_bytes [OF assms] by (rule chunks_concat)
qed

lemma unmask_byte:
  assumes "unat (c XOR k) < 256"
  shows "word_of_int (case parseInt16 [hex_digit (unat (c XOR k) div 16), hex_digit (unat (c XOR k) mod 16)]
                      of None \<Rightarrow> 0 | Some b \<Rightarrow> b) XOR k = (c :: code_unit)"
proof -
  let ?n = "unat (c XOR k)"
  have "?n div 16 < 16" using assms by simp
  moreover have "?n mod 16 < 16" by simp
  ultimately have "parseInt16 [hex_digit (?n div 16), hex_digit (?n mod 16)]
                     = Some (int (16 * (?n div 16) + ?n mod 16))"
    by (rule parseInt16_hex2)
  also have "16 * (?n div 16) + ?n mod 16 = ?n" by simp
  finally have "word_of_int (case parseInt16 [hex_digit (?n div 16), hex_digit (?n mod 16)]
                      of None \<Rightarrow> 0 | Some b \<Rightarrow> b) = c XOR k"
    by simp
  then show ?thesis by (simp add: xor.assoc)
qed

text \<open>
  Claim C10 as stated does not hold for the empty input: \<open>mask\<close> returns the empty text,
  on which the regular expression of \<open>unmask\<close> finds no piece, so \<open>match\<close> returns \<open>null\<close>
  and the call of \<open>map\<close> on it raises a \<open>TypeError\<close>.
\<close>

theorem mask_unmask_empty_counterexample:
  "unmask (mask [] [0x6B]) [0x6B] = Inl TypeError
   \<and> unmask (mask [] [0x6B]) [0x6B] \<noteq> Inr []"
  by (simp add: mask_def unmask_def)

text \<open>
  Claim C10, amended. For every non-empty key and every input such that each character
  code of the input, XORed with the code of the key character at the same position
  (the key repeated cyclically), is below 256, \<open>mask\<close> produces exactly two lowercase
  hexadecimal digits for each character of the input, and, when the input is not
  empty, \<open>unmask (mask input key) key\<close> returns the input.
\<close>

theorem mask_unmask_roundtrip:
  assumes "key \<noteq> []"
    and "\<forall>i < length input. unat (input ! i XOR key ! (i mod length key)) < 256"
  shows "(input \<noteq> [] \<longrightarrow> unmask (mask input key) key = Inr input)
     \<and> length (mask input key) = 2 * length input
     \<and> set (mask input key) \<subseteq> set ''0123456789abcdef''"
proof -
  have small: "\<forall>i < length input. unat (input ! i XOR key_code key i) < 256"
    using assms by (simp add: key_code_def)
  let ?cs = "map (byte_hex key) (zip input [0..<length input])"
  have cs: "chunks (mask input key) = ?cs"
    using small by (rule chunks_mask)
  have ne: "?cs \<noteq> []" if "input \<noteq> []" using that by simp
  have dec: "map (\<lambda>(h, i). word_of_int (case parseInt16 h of None \<Rightarrow> 0 | Some b \<Rightarrow> b)
                                      XOR key_code key i)
                       (zip ?cs [0..<length ?cs]) = input"
    using small by (intro nth_equalityI) (simp_all add: byte_hex_def unmask_byte)
  have "input \<noteq> [] \<longrightarrow> unmask (mask input key) key = Inr input"
  proof
    assume "input \<noteq> []"
    from ne [OF this] show "unmask (mask input key) key = Inr input"
      using assms(1) dec unfolding unmask_def cs by (cases ?cs) simp_all
  qed
  moreover have "length (mask input key) = 2 * length input"
    unfolding mask_bytes [OF small]
    by (simp add: length_concat comp_def byte_hex_def split_def sum_list_triv)
  moreover have "set (mask input key) \<subseteq> set ''0123456789abcdef''"
  proof -
    define S where "S = set ''0123456789abcdef''"
    have h: "\<forall>x \<in> set ?cs. set x \<subseteq> S"
    proof
      fix x assume "x \<in> set ?cs"
      from byte_hex_digits [OF small this]
      obtain a b where ab: "a < 16" "b < 16" and x: "x = [hex_digit a, hex_digit b]" by blast
      have "hex_digit a \<in> S"
        unfolding S_def using ab(1) by (rule hex_digit_facts(8))
      moreover have "hex_digit b \<in> S"
        unfolding S_def using ab(2) by (rule hex_digit_facts(8))
      ultimately
      show "set x \<subseteq> S"
        unfolding x by (simp only: list.set insert_subset empty_subsetI simp_thms)
    qed
    have "set (concat ?cs) \<subseteq> S"
    proof
      fix c assume "c \<in> set (concat ?cs)"
      then obtain x where "x \<in> set ?cs" "c \<in> set x"
        unfolding set_concat by blast
      with h show "c \<in> S" by blast
    qed
    then show ?thesis
      unfolding mask_bytes [OF small] S_def .
  qed
  ultimately show ?thesis by (intro conjI)
qed


theorem mask_unmask_roundtrip_witness:
  "unmask (mask [0x68, 0x69] [0x6B]) [0x6B] = Inr [0x68, 0x69]
   \<and> length (mask [0x68, 0x69] [0x6B]) = 4"
proof -
  have k: "[0x6B :: code_unit] \<noteq> []" and i: "[0x68, 0x69 :: code_unit] \<noteq> []"
    by simp_all
  have s: "\<forall>i < length [0x68, 0x69 :: code_unit].
             unat ([0x68, 0x69 :: code_unit] ! i XOR [0x6B] ! (i mod length [0x6B :: code_unit])) < 256"
  proof (intro allI impI)
    fix j assume "j < length [0x68, 0x69 :: code_unit]"
    then have "j = 0 \<or> j = 1" by auto
    moreover have "unat (0x68 XOR 0x6B :: code_unit) < 256"
      and "unat (0x69 XOR 0x6B :: code_unit) < 256"
      by simp_all
    ultimately show "unat ([0x68, 0x69 :: code_unit] ! j
                       XOR [0x6B] ! (j mod length [0x6B :: code_unit])) < 256"
      by auto
  qed
  show ?thesis
    using mask_unmask_roundtrip [OF k s] i by simp
qed

end
